theory Spec2Isabelle
  imports Complex_Main "HOL-Library.Sublist" "HOL-Library.Multiset"
begin

section \<open>Strings and the string primitives of the runtime\<close>

text \<open>
  A string of the program is a \<^typ>\<open>string\<close>; a character stands for one code unit in
  the range 0..255 (ASCII and the Latin-1 supplement). The operations below follow the
  ECMAScript definitions of \<^verbatim>\<open>includes\<close> and \<^verbatim>\<open>toLowerCase\<close> and of the
  regular expressions that occur in \<^verbatim>\<open>src/index.ts\<close>, on that range.
\<close>

definition str_includes :: "string \<Rightarrow> string \<Rightarrow> bool" where
  "str_includes s p = sublist p s"

definition lowerChar :: "char \<Rightarrow> char" where
  "lowerChar c =
     (let n = (of_char c :: nat)
      in if (65 \<le> n \<and> n \<le> 90) \<or> (192 \<le> n \<and> n \<le> 222 \<and> n \<noteq> 215)
         then char_of (n + 32) else c)"

definition toLowerCase :: "string \<Rightarrow> string" where
  "toLowerCase s = map lowerChar s"

text \<open>The class \<^verbatim>\<open>\s\<close>: tab, line feed, vertical tab, form feed, carriage return, space
  and the no-break space.\<close>

definition isSpace :: "char \<Rightarrow> bool" where
  "isSpace c = ((of_char c :: nat) \<in> {9, 10, 11, 12, 13, 32, 160})"

definition isDigit :: "char \<Rightarrow> bool" where
  "isDigit c = (48 \<le> (of_char c :: nat) \<and> (of_char c :: nat) \<le> 57)"

text \<open>Decimal rendering of a natural number, as template literals render a count, a port
  or a status code.\<close>

function showNat :: "nat \<Rightarrow> string" where
  "showNat n = (if n < 10 then [char_of (48 + n)] else showNat (n div 10) @ [char_of (48 + n mod 10)])"
  by pat_completeness auto
termination
  by (relation "measure id") auto

declare showNat.simps [simp del]

text \<open>\<^verbatim>\<open>/https?:\/\/[^\s]+/\<close> tried at the start of a string: the scheme, then the longest
  non-empty run of non-space characters.\<close>

definition urlTokenAt :: "string \<Rightarrow> string option" where
  "urlTokenAt s =
     (if prefix ''https://'' s \<and> takeWhile (\<lambda>c. \<not> isSpace c) (drop 8 s) \<noteq> []
      then Some (''https://'' @ takeWhile (\<lambda>c. \<not> isSpace c) (drop 8 s))
      else if prefix ''http://'' s \<and> takeWhile (\<lambda>c. \<not> isSpace c) (drop 7 s) \<noteq> []
      then Some (''http://'' @ takeWhile (\<lambda>c. \<not> isSpace c) (drop 7 s))
      else None)"

text \<open>\<^verbatim>\<open>thought.match(/https?:\/\/[^\s]+/)\<close>: the leftmost match, \<open>None\<close> for \<^verbatim>\<open>null\<close>.\<close>

fun urlMatch :: "string \<Rightarrow> string option" where
  "urlMatch [] = None"
| "urlMatch (c # cs) =
     (case urlTokenAt (c # cs) of Some m \<Rightarrow> Some m | None \<Rightarrow> urlMatch cs)"

text \<open>\<^verbatim>\<open>/https?:\/\/[^\/]+/\<close> tried at the start of a string; the result is the length of
  the match.\<close>

definition originLenAt :: "string \<Rightarrow> nat option" where
  "originLenAt s =
     (if prefix ''https://'' s \<and> takeWhile (\<lambda>c. c \<noteq> CHR ''/'') (drop 8 s) \<noteq> []
      then Some (8 + length (takeWhile (\<lambda>c. c \<noteq> CHR ''/'') (drop 8 s)))
      else if prefix ''http://'' s \<and> takeWhile (\<lambda>c. c \<noteq> CHR ''/'') (drop 7 s) \<noteq> []
      then Some (7 + length (takeWhile (\<lambda>c. c \<noteq> CHR ''/'') (drop 7 s)))
      else None)"

text \<open>\<^verbatim>\<open>s.replace(/^https?:\/\/[^\/]+/, r)\<close>: the anchored pattern.\<close>

definition replaceOriginAtStart :: "string \<Rightarrow> string \<Rightarrow> string" where
  "replaceOriginAtStart s r = (case originLenAt s of Some n \<Rightarrow> r @ drop n s | None \<Rightarrow> s)"

text \<open>\<^verbatim>\<open>s.replace(/https?:\/\/[^\/]+/, r)\<close>: the first match anywhere.\<close>

fun replaceOrigin :: "string \<Rightarrow> string \<Rightarrow> string" where
  "replaceOrigin [] r = []"
| "replaceOrigin (c # cs) r =
     (case originLenAt (c # cs) of
        Some n \<Rightarrow> r @ drop n (c # cs)
      | None \<Rightarrow> c # replaceOrigin cs r)"

text \<open>\<^verbatim>\<open>s.match(/:(\d+)/)\<close>: the capture group of the leftmost match.\<close>

fun portMatch :: "string \<Rightarrow> string option" where
  "portMatch [] = None"
| "portMatch (c # cs) =
     (if c = CHR '':'' \<and> takeWhile isDigit cs \<noteq> [] then Some (takeWhile isDigit cs)
      else portMatch cs)"

text \<open>\<^verbatim>\<open>s.match(/realm="([^"]+)"/)\<close>: the capture group of the leftmost match.\<close>

definition realmAt :: "string \<Rightarrow> string option" where
  "realmAt s =
     (if prefix (''realm='' @ [CHR 0x22]) s
         \<and> takeWhile (\<lambda>c. c \<noteq> CHR 0x22) (drop 7 s) \<noteq> []
         \<and> dropWhile (\<lambda>c. c \<noteq> CHR 0x22) (drop 7 s) \<noteq> []
      then Some (takeWhile (\<lambda>c. c \<noteq> CHR 0x22) (drop 7 s)) else None)"

fun realmMatch :: "string \<Rightarrow> string option" where
  "realmMatch [] = None"
| "realmMatch (c # cs) =
     (case realmAt (c # cs) of Some m \<Rightarrow> Some m | None \<Rightarrow> realmMatch cs)"

section \<open>The runtime\<close>

text \<open>
  \<^verbatim>\<open>new URL(s)\<close> is the URL parser of the runtime; the program reads the \<^verbatim>\<open>hostname\<close> and
  the \<^verbatim>\<open>pathname\<close> of its result and catches its \<^verbatim>\<open>TypeError\<close>. The parser is a parameter
  of the model (\<open>None\<close> is the throw). A thrown value carries the text the top-level handler
  reports (\<^verbatim>\<open>error.message\<close>, or \<^verbatim>\<open>String(error)\<close> for a value that is not an \<^verbatim>\<open>Error\<close>) and the
  text a template literal renders for it.
\<close>

record url =
  hostname :: string
  pathname :: string

datatype thrown = Thrown (thrownMessage: string) (thrownText: string)

datatype 'a outcome = Throws thrown | Returns 'a

record runtime =
  parseURL :: "string \<Rightarrow> url option"
  invalidURL :: thrown
  typeError :: thrown

section \<open>Data model\<close>

text \<open>A value that arrives in the untyped tool arguments. Numbers are the finite ones,
  and \<^verbatim>\<open>NaN\<close>, which is a number and falsy.\<close>

datatype jsval =
    JUndefined | JNull | JBool bool | JNum rat | JNaN | JStr string | JObject

datatype jstype = TUndefined | TObject | TBoolean | TNumber | TString

fun typeof :: "jsval \<Rightarrow> jstype" where
  "typeof JUndefined = TUndefined"
| "typeof JNull = TObject"
| "typeof (JBool b) = TBoolean"
| "typeof (JNum r) = TNumber"
| "typeof JNaN = TNumber"
| "typeof (JStr s) = TString"
| "typeof JObject = TObject"

fun truthy :: "jsval \<Rightarrow> bool" where
  "truthy JUndefined = False"
| "truthy JNull = False"
| "truthy (JBool b) = b"
| "truthy (JNum r) = (r \<noteq> 0)"
| "truthy JNaN = False"
| "truthy (JStr s) = (s \<noteq> [])"
| "truthy JObject = True"

text \<open>The tool arguments. The four required fields are untyped; the optional fields,
  which \<^verbatim>\<open>validateThoughtData\<close> copies with a cast and no check, are taken at their declared
  types, \<open>None\<close> for an absent one. \<open>Nullish\<close> is an argument value \<^verbatim>\<open>null\<close> or \<^verbatim>\<open>undefined\<close>;
  an absent field, and every field of an argument value that is not an object, reads as
  \<open>JUndefined\<close>.\<close>

record rawInput =
  rawThought :: jsval
  rawThoughtNumber :: jsval
  rawTotalThoughts :: jsval
  rawNextThoughtNeeded :: jsval
  rawIsRevision :: "bool option"
  rawRevisesThought :: "rat option"
  rawBranchFromThought :: "rat option"
  rawBranchId :: "string option"
  rawNeedsMoreThoughts :: "bool option"

datatype toolInput = Nullish | Arguments rawInput

record ThoughtData =
  thought :: string
  thoughtNumber :: rat
  totalThoughts :: rat
  isRevision :: "bool option"
  revisesThought :: "rat option"
  branchFromThought :: "rat option"
  branchId :: "string option"
  needsMoreThoughts :: "bool option"
  nextThoughtNeeded :: bool

text \<open>The kinds and the actions of a rule; \<open>default_type\<close> is the kind \<^verbatim>\<open>default\<close> and
  \<open>append_action\<close> the action \<^verbatim>\<open>append\<close>.\<close>

datatype ruleType = header | body | default_type

datatype ruleAction = find_replace | add | replace | remove | append_action | enable

record RewriteRule =
  rtype :: ruleType
  action :: ruleAction
  pattern :: "string option"
  replacement :: "string option"
  headerName :: "string option"
  headerValue :: "string option"
  path :: "string option"
  condition :: "string option"
  description :: string
  priority :: int

type_synonym headers = "(string \<times> string) list"

text \<open>A property read \<^verbatim>\<open>h[name]\<close> on an object built from a list of entries: the last
  entry of a name is the one the object holds.\<close>

definition getHeader :: "headers \<Rightarrow> string \<Rightarrow> string option" where
  "getHeader h name = map_of (rev h) name"

record NetworkRequest =
  reqUrl :: string
  reqMethod :: string
  reqHeaders :: headers
  status :: "nat option"
  responseHeaders :: "headers option"
  reqBody :: "string option"
  isPrivateAPI :: bool
  isDeviceIP :: bool
  reqError :: "string option"

record ConsoleError =
  ceType :: string
  message :: string
  ceUrl :: "string option"
  lineNumber :: "nat option"
  isMimeType :: bool
  isBootstrapJS :: bool

record curlResult =
  curlStatus :: nat
  curlStatusText :: string
  curlHeaders :: headers
  curlUrl :: string

text \<open>The field \<^verbatim>\<open>debugContext\<close>. \<^verbatim>\<open>redirects\<close> holds references to entries of
  \<^verbatim>\<open>networkRequests\<close> (the array \<^verbatim>\<open>filter\<close> returns shares the request objects), so it is
  a list of positions in \<open>networkRequests\<close>, which only grows.\<close>

record debugContext =
  deviceUrl :: string
  deviceIP :: string
  deviceHostname :: string
  currentStep :: string
  defaultRulesEnabled :: bool
  pageLoadStatus :: string
  brokenImages :: "string list"
  brokenLinks :: "string list"
  deviceIPReferences :: "string list"
  websocketIssues :: "string list"
  redirects :: "nat list"
  networkRequests :: "NetworkRequest list"
  consoleErrors :: "ConsoleError list"
  curlResults :: "curlResult option"
  rewriteRules :: "RewriteRule list"
  issues :: "string list"

definition initialContext :: debugContext where
  "initialContext =
     \<lparr> deviceUrl = [], deviceIP = [], deviceHostname = [], currentStep = [],
       defaultRulesEnabled = False, pageLoadStatus = [],
       brokenImages = [], brokenLinks = [], deviceIPReferences = [],
       websocketIssues = [], redirects = [], networkRequests = [], consoleErrors = [],
       curlResults = None, rewriteRules = [], issues = [] \<rparr>"

section \<open>Target classification helpers\<close>

text \<open>\<^verbatim>\<open>/^(192\.168\.|10\.|172\.(1[6-9]|2[0-9]|3[01])\.|127\.)/.test(h)\<close>\<close>

definition ipRegexTest :: "string \<Rightarrow> bool" where
  "ipRegexTest h =
     (prefix ''192.168.'' h \<or> prefix ''10.'' h
      \<or> (prefix ''172.'' h
          \<and> (case drop 4 h of
                a # b # c # _ \<Rightarrow>
                  c = CHR ''.''
                  \<and> ((a = CHR ''1'' \<and> b \<in> set ''6789'')
                     \<or> (a = CHR ''2'' \<and> isDigit b)
                     \<or> (a = CHR ''3'' \<and> b \<in> set ''01''))
              | _ \<Rightarrow> False))
      \<or> prefix ''127.'' h)"

definition isDeviceIPOrHostname :: "runtime \<Rightarrow> debugContext \<Rightarrow> string \<Rightarrow> bool" where
  "isDeviceIPOrHostname rt ctx u =
     (if deviceUrl ctx = [] then False
      else case parseURL rt u of
             None \<Rightarrow> False
           | Some urlObj \<Rightarrow>
               (case parseURL rt (deviceUrl ctx) of
                  None \<Rightarrow> False
                | Some deviceUrlObj \<Rightarrow>
                    if hostname urlObj = hostname deviceUrlObj then True
                    else ipRegexTest (hostname urlObj)))"

definition isPrivateAPICall :: "string \<Rightarrow> bool" where
  "isPrivateAPICall u =
     (str_includes u ''/private-api/'' \<or> str_includes u ''/api/private/''
      \<or> str_includes u ''/internal/'' \<or> str_includes (toLowerCase u) ''private'')"

section \<open>Page events\<close>

text \<open>
  The callbacks \<^verbatim>\<open>initBrowser\<close> registers on the page. They touch \<^verbatim>\<open>networkRequests\<close> and
  \<^verbatim>\<open>consoleErrors\<close> only.
\<close>

datatype pageEvent =
    PageRequest string string headers
  | PageResponse string nat headers
  | PageConsole string string "string option" "nat option"

definition onRequest :: "runtime \<Rightarrow> string \<Rightarrow> string \<Rightarrow> headers \<Rightarrow> debugContext \<Rightarrow> debugContext" where
  "onRequest rt u m h ctx =
     ctx\<lparr>networkRequests := networkRequests ctx @
       [\<lparr> reqUrl = u, reqMethod = m, reqHeaders = h, status = None, responseHeaders = None,
          reqBody = None, isPrivateAPI = isPrivateAPICall u,
          isDeviceIP = isDeviceIPOrHostname rt ctx u, reqError = None \<rparr>]\<rparr>"

text \<open>\<^verbatim>\<open>networkRequests.find(r => r.url === response.url())\<close> and the updates of the request
  found: the first entry with that URL.\<close>

fun updateFirst :: "string \<Rightarrow> nat \<Rightarrow> headers \<Rightarrow> NetworkRequest list \<Rightarrow> NetworkRequest list" where
  "updateFirst u st h [] = []"
| "updateFirst u st h (r # rs) =
     (if reqUrl r = u
      then (if st \<ge> 400
            then r\<lparr>status := Some st, responseHeaders := Some h,
                   reqError := Some (''HTTP '' @ showNat st)\<rparr>
            else r\<lparr>status := Some st, responseHeaders := Some h\<rparr>) # rs
      else r # updateFirst u st h rs)"

definition onResponse :: "string \<Rightarrow> nat \<Rightarrow> headers \<Rightarrow> debugContext \<Rightarrow> debugContext" where
  "onResponse u st h ctx = ctx\<lparr>networkRequests := updateFirst u st h (networkRequests ctx)\<rparr>"

definition onConsole :: "string \<Rightarrow> string \<Rightarrow> string option \<Rightarrow> nat option \<Rightarrow> debugContext \<Rightarrow> debugContext" where
  "onConsole ty txt loc line ctx =
     (let consoleError =
            \<lparr> ceType = ty, message = txt, ceUrl = loc, lineNumber = line,
              isMimeType = str_includes (toLowerCase txt) ''mime type'',
              isBootstrapJS = str_includes (toLowerCase txt) ''bootstrap.js'' \<rparr>
      in if ty = ''error'' \<or> isMimeType consoleError \<or> isBootstrapJS consoleError
         then ctx\<lparr>consoleErrors := consoleErrors ctx @ [consoleError]\<rparr>
         else ctx)"

fun handleEvent :: "runtime \<Rightarrow> pageEvent \<Rightarrow> debugContext \<Rightarrow> debugContext" where
  "handleEvent rt (PageRequest u m h) ctx = onRequest rt u m h ctx"
| "handleEvent rt (PageResponse u st h) ctx = onResponse u st h ctx"
| "handleEvent rt (PageConsole ty txt loc line) ctx = onConsole ty txt loc line ctx"

text \<open>The events the page delivers while an analyzer waits for a collaborator, in their
  order of arrival.\<close>

fun deliver :: "runtime \<Rightarrow> pageEvent list \<Rightarrow> debugContext \<Rightarrow> debugContext" where
  "deliver rt [] ctx = ctx"
| "deliver rt (e # es) ctx = deliver rt es (handleEvent rt e ctx)"

section \<open>The collaborators\<close>

text \<open>
  What the page inspector and the header prober answer during one step. \<open>goto\<close> is the
  navigation (\<open>None\<close> for a \<^verbatim>\<open>null\<close> response, else the status), the three \<open>eval\<close> fields are
  the results of the three \<^verbatim>\<open>page.evaluate\<close> probes, \<open>fetchHead\<close> is the \<^verbatim>\<open>HEAD\<close> request.
\<close>

record pageContent =
  hasBody :: bool
  bodyLength :: nat
  hasLoginForm :: bool
  pageTitle :: string
  hasTryAgainMessage :: bool

record resourceAnalysis =
  raBrokenImages :: "string list"
  raAllImages :: "string list"
  raDeviceIPLinks :: "string list"
  raScriptSources :: "string list"
  raStylesheetSources :: "string list"
  raStaticResources :: "string list"

record fetchResponse =
  frStatus :: nat
  frStatusText :: string
  frHeaders :: headers
  frUrl :: string

record env =
  launch :: "unit outcome"
  newContext :: "unit outcome"
  newPage :: "unit outcome"
  goto :: "nat option outcome"
  evalPageContent :: "pageContent outcome"
  evalResources :: "resourceAnalysis outcome"
  evalHasWebSocket :: "bool outcome"
  fetchHead :: "fetchResponse outcome"
  pageClose :: "unit outcome"
  browserClose :: "unit outcome"
  arrivals :: "pageEvent list"

section \<open>Phase analyzers\<close>

definition FQDN :: string where
  "FQDN = ''{{DEVICE_EXTERNAL_FQDN}}''"

definition rule :: "ruleType \<Rightarrow> ruleAction \<Rightarrow> string \<Rightarrow> int \<Rightarrow> RewriteRule" where
  "rule t a d p =
     \<lparr> rtype = t, action = a, pattern = None, replacement = None, headerName = None,
       headerValue = None, path = None, condition = None, description = d, priority = p \<rparr>"

definition pushIssues :: "string list \<Rightarrow> debugContext \<Rightarrow> debugContext" where
  "pushIssues xs ctx = ctx\<lparr>issues := issues ctx @ xs\<rparr>"

definition pushRules :: "RewriteRule list \<Rightarrow> debugContext \<Rightarrow> debugContext" where
  "pushRules rs ctx = ctx\<lparr>rewriteRules := rewriteRules ctx @ rs\<rparr>"

definition baselineRules :: "RewriteRule list" where
  "baselineRules =
     [ rule default_type enable ''Enable default proxy rules - ALWAYS FIRST STEP'' 1,
       (rule header add ''Add forwarded host header for proper routing'' 2)
         \<lparr>headerName := Some ''X-Forwarded-Host'', headerValue := Some FQDN\<rparr>,
       (rule header add ''Add forwarded protocol header for HTTPS'' 3)
         \<lparr>headerName := Some ''X-Forwarded-Proto'', headerValue := Some ''https''\<rparr>,
       (rule header replace ''Replace host header with device internal IP'' 4)
         \<lparr>headerName := Some ''Host'', pattern := Some ''.*'',
          replacement := Some ''{{DEVICE_INTERNAL_IP}}''\<rparr> ]"

definition step1_EnableDefaultRules :: "debugContext \<Rightarrow> debugContext" where
  "step1_EnableDefaultRules ctx =
     (if defaultRulesEnabled ctx then ctx
      else pushIssues [''Default rules enabled - baseline proxy configuration applied'']
             (pushRules baselineRules
               (ctx\<lparr>currentStep := ''Step 1: Enable Default Rules'',
                    defaultRulesEnabled := True\<rparr>)))"

definition step2_catch :: "thrown \<Rightarrow> debugContext \<Rightarrow> debugContext" where
  "step2_catch t ctx =
     pushIssues [''Page loading failed with error: '' @ thrownText t]
       (ctx\<lparr>pageLoadStatus := ''not_loaded''\<rparr>)"

definition analyzeContent :: "nat \<Rightarrow> pageContent \<Rightarrow> debugContext \<Rightarrow> debugContext" where
  "analyzeContent st pc ctx =
     (let ctx1 =
            (if \<not> hasBody pc \<or> bodyLength pc < 100
             then pushIssues [''Web page is not loaded at all - no content detected'']
                    (ctx\<lparr>pageLoadStatus := ''not_loaded''\<rparr>)
             else if \<not> hasLoginForm pc \<and> st \<noteq> 200
             then pushIssues [''Web page is partially loaded - missing login elements'']
                    (ctx\<lparr>pageLoadStatus := ''partially_loaded''\<rparr>)
             else if hasLoginForm pc
             then pushIssues [''Web page loaded successfully with login form detected'']
                    (ctx\<lparr>pageLoadStatus := ''fully_loaded''\<rparr>)
             else ctx\<lparr>pageLoadStatus := ''fully_loaded''\<rparr>)
      in if hasTryAgainMessage pc
         then pushIssues
                [''LOGIN ISSUE: '' @ [CHR 0x27] @ ''Try again'' @ [CHR 0x27]
                   @ '' message detected - common after device upgrade'',
                 ''RECOMMENDATION: Apply comprehensive rewrite rules and check for Alpha weblink requirement'']
                ctx1
         else ctx1)"

definition step2_AnalyzePageLoading :: "runtime \<Rightarrow> bool \<Rightarrow> env \<Rightarrow> debugContext \<Rightarrow> debugContext" where
  "step2_AnalyzePageLoading rt pg ev ctx =
     (if deviceUrl ctx = [] \<or> \<not> pg then ctx
      else
        let ctx1 = deliver rt (arrivals ev)
                     (ctx\<lparr>currentStep := ''Step 2: Analyze Page Loading Status''\<rparr>)
        in case goto ev of
             Throws t \<Rightarrow> step2_catch t ctx1
           | Returns None \<Rightarrow>
               pushIssues [''CRITICAL: Web page is not loaded at all - no response from device'']
                 (ctx1\<lparr>pageLoadStatus := ''not_loaded''\<rparr>)
           | Returns (Some st) \<Rightarrow>
               if st = 400
               then pushRules
                      [ (rule header add ''Fix hostname requirement for device (Error 400)'' 10)
                          \<lparr>headerName := Some ''Host'',
                           headerValue := Some (if deviceHostname ctx1 \<noteq> [] then deviceHostname ctx1
                                                else ''{{DEVICE_HOSTNAME}}'')\<rparr>,
                        (rule header add ''Add real IP address for device authentication'' 11)
                          \<lparr>headerName := Some ''X-Real-IP'',
                           headerValue := Some ''{{DEVICE_REAL_IP}}''\<rparr> ]
                      (pushIssues [''ERROR 400 hostname invalid - device requires specific hostname'']
                        (ctx1\<lparr>pageLoadStatus := ''not_loaded''\<rparr>))
               else (case evalPageContent ev of
                       Throws t \<Rightarrow> step2_catch t ctx1
                     | Returns pc \<Rightarrow> analyzeContent st pc ctx1))"

text \<open>The rule for one URL found in the page: host and path when the URL parses, a
  substitution of the origin prefix of the raw string when it does not.\<close>

definition resourceRule :: "runtime \<Rightarrow> string \<Rightarrow> string \<Rightarrow> int \<Rightarrow> string \<Rightarrow> RewriteRule" where
  "resourceRule rt whenParsed whenRaw p src =
     (case parseURL rt src of
        Some urlObj \<Rightarrow>
          (rule body find_replace (whenParsed @ pathname urlObj) p)
            \<lparr>pattern := Some (hostname urlObj @ pathname urlObj),
             replacement := Some (FQDN @ pathname urlObj)\<rparr>
      | None \<Rightarrow>
          (rule body find_replace (whenRaw @ src) p)
            \<lparr>pattern := Some src, replacement := Some (replaceOriginAtStart src FQDN)\<rparr>)"

definition staticRule :: "string \<Rightarrow> RewriteRule" where
  "staticRule resource =
     (rule body find_replace (''Fix static resource path: '' @ resource) 22)
       \<lparr>pattern := Some resource, replacement := Some (replaceOriginAtStart resource FQDN)\<rparr>"

definition step3_AnalyzeResources :: "runtime \<Rightarrow> bool \<Rightarrow> env \<Rightarrow> debugContext \<Rightarrow> debugContext" where
  "step3_AnalyzeResources rt pg ev ctx =
     (if \<not> pg then ctx
      else
        let ctx1 = deliver rt (arrivals ev)
                     (ctx\<lparr>currentStep := ''Step 3: Analyze Resources (Images, Links, Static Files)''\<rparr>)
        in case evalResources ev of
             Throws t \<Rightarrow> pushIssues [''Resource analysis failed: '' @ thrownText t] ctx1
           | Returns ra \<Rightarrow>
               let imgs = filter (isDeviceIPOrHostname rt ctx1) (raBrokenImages ra);
                   ctx2 = ctx1\<lparr>brokenImages := imgs\<rparr>;
                   ctx3 = (if length imgs > 0
                           then pushRules
                                  (map (resourceRule rt ''Fix broken image resource: ''
                                          ''Fix broken image: '' 20) imgs)
                                  (pushIssues
                                    [''RESOURCE ISSUE: Found '' @ showNat (length imgs)
                                       @ '' broken images pointing to device IP/hostname'']
                                    ctx2)
                           else ctx2);
                   links = raDeviceIPLinks ra;
                   ctx4 = ctx3\<lparr>brokenLinks := links\<rparr>;
                   ctx5 = (if length links > 0
                           then pushRules
                                  (map (resourceRule rt ''Fix device IP link: ''
                                          ''Fix device IP link: '' 21) links)
                                  (pushIssues
                                    [''LINK ISSUE: Found '' @ showNat (length links)
                                       @ '' links pointing to device IP - links not working'']
                                    ctx4)
                           else ctx4);
                   staticResources = raScriptSources ra @ raStylesheetSources ra
               in if length staticResources > 0
                  then pushRules
                         (map staticRule
                            (filter (\<lambda>r. str_includes r ''/static/'' \<or> str_includes r ''/assets/'')
                               staticResources))
                         (pushIssues
                           [''STATIC RESOURCE ISSUE: Found '' @ showNat (length staticResources)
                              @ '' static resources that may need rewriting'']
                           ctx5)
                  else ctx5)"

definition wsRule :: "string \<Rightarrow> nat \<Rightarrow> RewriteRule" where
  "wsRule host port =
     (rule body find_replace (''Fix WebSocket connection on port '' @ showNat port) 30)
       \<lparr>pattern := Some (''ws://'' @ host @ '':'' @ showNat port),
        replacement := Some (''wss://{{DEVICE_EXTERNAL_FQDN}}:'' @ showNat port)\<rparr>"

definition step4_AnalyzeWebSocket :: "runtime \<Rightarrow> bool \<Rightarrow> env \<Rightarrow> debugContext \<Rightarrow> debugContext" where
  "step4_AnalyzeWebSocket rt pg ev ctx =
     (let ctx0 = ctx\<lparr>currentStep := ''Analyze WebSocket Connections''\<rparr>
      in if \<not> pg then ctx0
         else
           let ctx1 = deliver rt (arrivals ev) ctx0
           in case evalHasWebSocket ev of
                Throws t \<Rightarrow> pushIssues [''WebSocket analysis failed: '' @ thrownText t] ctx1
              | Returns hasWebSocket \<Rightarrow>
                  if hasWebSocket
                  then
                    let ctx2 = pushIssues
                                 [''WebSocket connections detected - may need special proxy handling'']
                                 (ctx1\<lparr>websocketIssues := websocketIssues ctx1 @
                                         [''WebSocket connections detected'']\<rparr>)
                    in case parseURL rt (deviceUrl ctx2) of
                         None \<Rightarrow>
                           pushIssues [''WebSocket analysis failed: '' @ thrownText (invalidURL rt)] ctx2
                       | Some deviceUrlObj \<Rightarrow>
                           pushRules (map (wsRule (hostname deviceUrlObj)) [8080, 8081, 8443, 9001]) ctx2
                  else ctx1)"

text \<open>\<^verbatim>\<open>h?.location\<close> as a condition and as a string: a header that is present and not empty.\<close>

definition truthyHeader :: "headers \<Rightarrow> string \<Rightarrow> string option" where
  "truthyHeader h name =
     (case getHeader h name of None \<Rightarrow> None | Some v \<Rightarrow> if v = [] then None else Some v)"

definition isRedirect :: "NetworkRequest \<Rightarrow> bool" where
  "isRedirect req = (case status req of None \<Rightarrow> False | Some st \<Rightarrow> st \<noteq> 0 \<and> st \<ge> 300 \<and> st < 400)"

definition redirectLocation :: "NetworkRequest \<Rightarrow> string option" where
  "redirectLocation req =
     (case responseHeaders req of None \<Rightarrow> None | Some h \<Rightarrow> truthyHeader h ''location'')"

definition redirectIssues :: "NetworkRequest \<Rightarrow> string list" where
  "redirectIssues req =
     (case redirectLocation req of
        None \<Rightarrow> []
      | Some location \<Rightarrow>
          (case portMatch location of
             None \<Rightarrow> []
           | Some redirectPort \<Rightarrow>
               [''Device redirects to port '' @ redirectPort
                  @ '' - consider onboarding with this port'']))"

definition redirectRules :: "NetworkRequest \<Rightarrow> RewriteRule list" where
  "redirectRules req =
     (case redirectLocation req of
        None \<Rightarrow> []
      | Some location \<Rightarrow>
          [(rule header replace (''Fix redirect to: '' @ location) 40)
             \<lparr>headerName := Some ''Location'', pattern := Some location,
              replacement := Some (replaceOrigin location FQDN)\<rparr>])"

definition step5_AnalyzeRedirects :: "debugContext \<Rightarrow> debugContext" where
  "step5_AnalyzeRedirects ctx =
     (let idxs = filter (\<lambda>i. isRedirect (networkRequests ctx ! i)) [0 ..< length (networkRequests ctx)];
          found = map (\<lambda>i. networkRequests ctx ! i) idxs;
          ctx1 = ctx\<lparr>currentStep := ''Analyze Redirects'', redirects := idxs\<rparr>
      in if length found > 0
         then pushRules (concat (map redirectRules found))
                (pushIssues
                   ((''Found '' @ showNat (length found) @ '' redirects - potential for redirect loops'')
                      # concat (map redirectIssues found))
                   ctx1)
         else ctx1)"

definition isNetworkError :: "NetworkRequest \<Rightarrow> bool" where
  "isNetworkError req = (case status req of None \<Rightarrow> False | Some st \<Rightarrow> st \<noteq> 0 \<and> st \<ge> 400)"

definition statusText :: "NetworkRequest \<Rightarrow> string" where
  "statusText req = (case status req of None \<Rightarrow> ''undefined'' | Some st \<Rightarrow> showNat st)"

definition networkErrorIssues :: "NetworkRequest \<Rightarrow> string list" where
  "networkErrorIssues e =
     (if status e = Some 404 then [''404 ERROR: '' @ reqUrl e @ '' - resource not found'']
      else if status e = Some 500 then [''500 ERROR: '' @ reqUrl e @ '' - server error'']
      else [])"

definition networkErrorRules :: "runtime \<Rightarrow> NetworkRequest \<Rightarrow> RewriteRule list" where
  "networkErrorRules rt e =
     (if isDeviceIP e
         \<and> (str_includes (reqUrl e) ''/static/'' \<or> str_includes (reqUrl e) ''/assets/''
            \<or> str_includes (reqUrl e) ''/js/'' \<or> str_includes (reqUrl e) ''/css/'')
      then [resourceRule rt (''Fix '' @ statusText e @ '' error for static resource: '')
              (''Fix '' @ statusText e @ '' error for: '') 50 (reqUrl e)]
      else [])"

definition mimeRules :: "RewriteRule list" where
  "mimeRules =
     [ (rule header add ''Fix MIME type mismatch for JavaScript files'' 60)
         \<lparr>headerName := Some ''Content-Type'', headerValue := Some ''application/javascript'',
          condition := Some ''path ends with .js''\<rparr>,
       (rule header add ''Fix MIME type mismatch for CSS files'' 61)
         \<lparr>headerName := Some ''Content-Type'', headerValue := Some ''text/css'',
          condition := Some ''path ends with .css''\<rparr> ]"

definition bootstrapRule :: RewriteRule where
  "bootstrapRule =
     (rule body find_replace
        ''Fix bootstrap.js HTTPS protocol issue (DSD-3756) - Critical OT fix'' 70)
       \<lparr>pattern := Some ''https'', replacement := Some ''spdy'', path := Some ''bootstrap.js''\<rparr>"

definition privateAPIRule :: "NetworkRequest \<Rightarrow> RewriteRule" where
  "privateAPIRule apiCall =
     (rule body find_replace (''JSON body rewrite for private API: '' @ reqUrl apiCall) 75)
       \<lparr>pattern := Some ''{{DEVICE_IP}}'', replacement := Some FQDN,
        path := Some (if str_includes (reqUrl apiCall) ''/private-api/''
                      then ''/private-api/*'' else ''/api/private/*'')\<rparr>"

definition consolePatternIssues :: "ConsoleError \<Rightarrow> string list" where
  "consolePatternIssues e =
     (if str_includes (toLowerCase (message e)) ''websocket''
      then [''WEBSOCKET CONSOLE ERROR: '' @ message e] else [])
     @ (if str_includes (toLowerCase (message e)) ''cors''
        then [''CORS ERROR: '' @ message e @ '' - may need header rules''] else [])
     @ (if str_includes (toLowerCase (message e)) ''certificate''
        then [''SSL CERTIFICATE ERROR: '' @ message e] else [])"

definition analyzeNetworkErrors :: "runtime \<Rightarrow> debugContext \<Rightarrow> debugContext" where
  "analyzeNetworkErrors rt ctx =
     (let networkErrors = filter isNetworkError (networkRequests ctx)
      in if length networkErrors > 0
         then pushRules (concat (map (networkErrorRules rt) networkErrors))
                (pushIssues
                   ((''NETWORK ERRORS: Found '' @ showNat (length networkErrors)
                       @ '' network errors (404/500)'')
                      # concat (map networkErrorIssues networkErrors))
                   ctx)
         else ctx)"

definition analyzeMimeTypes :: "debugContext \<Rightarrow> debugContext" where
  "analyzeMimeTypes ctx =
     (let mimeTypeErrors = filter isMimeType (consoleErrors ctx)
      in if length mimeTypeErrors > 0
         then pushRules mimeRules
                (pushIssues
                   [''MIME TYPE ISSUE: '' @ showNat (length mimeTypeErrors)
                      @ '' MIME type mismatch errors detected in console'']
                   ctx)
         else ctx)"

definition analyzeBootstrap :: "debugContext \<Rightarrow> debugContext" where
  "analyzeBootstrap ctx =
     (let bootstrapErrors = filter isBootstrapJS (consoleErrors ctx)
      in if length bootstrapErrors > 0
         then pushIssues
                [''NOTE: If bootstrap.js file is updated, this rule may need adjustment'',
                 ''ALTERNATIVE: If HTTPS is properly configured on device, onboard as HTTPS and remove this rule'']
                (pushRules [bootstrapRule]
                  (pushIssues
                     [''BOOTSTRAP.JS ISSUE: Bootstrap.js HTTPS protocol issue detected (Reference: DSD-3756)'',
                      ''ROOT CAUSE: Device configured as HTTP but accessed via HTTPS through RA portal'']
                     ctx))
         else ctx)"

definition analyzePrivateAPI :: "debugContext \<Rightarrow> debugContext" where
  "analyzePrivateAPI ctx =
     (let privateAPICalls = filter isPrivateAPI (networkRequests ctx)
      in if length privateAPICalls > 0
         then pushIssues [''IMPORTANT: Enable JSON body rewrite for private API endpoints'']
                (pushRules (map privateAPIRule privateAPICalls)
                  (pushIssues
                     [''PRIVATE API ISSUE: Found '' @ showNat (length privateAPICalls)
                        @ '' private API calls - may need JSON body rewrite'']
                     ctx))
         else ctx)"

definition analyzeConsolePatterns :: "debugContext \<Rightarrow> debugContext" where
  "analyzeConsolePatterns ctx =
     pushIssues (concat (map consolePatternIssues (consoleErrors ctx))) ctx"

text \<open>\<^verbatim>\<open>step6_AnalyzeNetworkAndConsole\<close>: its five blocks in the order of the source. The two
  filters of the console errors are taken before the blocks run; no block changes
  \<^verbatim>\<open>consoleErrors\<close> or \<^verbatim>\<open>networkRequests\<close>.\<close>

definition step6_AnalyzeNetworkAndConsole :: "runtime \<Rightarrow> debugContext \<Rightarrow> debugContext" where
  "step6_AnalyzeNetworkAndConsole rt ctx =
     analyzeConsolePatterns
       (analyzePrivateAPI
         (analyzeBootstrap
           (analyzeMimeTypes
             (analyzeNetworkErrors rt
               (ctx\<lparr>currentStep := ''Step 6: Analyze Network Failures and Console Errors''\<rparr>)))))"

definition curlLocation :: "runtime \<Rightarrow> headers \<Rightarrow> debugContext \<Rightarrow> debugContext" where
  "curlLocation rt h ctx =
     (case truthyHeader h ''location'' of
        None \<Rightarrow> ctx
      | Some locationHeader \<Rightarrow>
          let ctx1 = pushIssues [''REDIRECT DETECTED: Location header points to '' @ locationHeader] ctx;
              ctx2 = (if isDeviceIPOrHostname rt ctx1 locationHeader
                      then pushRules
                             [(rule header replace ''Fix Location header hostname reference'' 80)
                                \<lparr>headerName := Some ''Location'', pattern := Some locationHeader,
                                 replacement := Some (replaceOrigin locationHeader FQDN)\<rparr>]
                             (pushIssues [''REDIRECT ISSUE: Location header contains device IP/hostname''] ctx1)
                      else ctx1)
          in (case portMatch locationHeader of
                None \<Rightarrow> ctx2
              | Some redirectPort \<Rightarrow>
                  pushIssues
                    ((''PORT RECOMMENDATION: Device redirects to port '' @ redirectPort
                        @ '' - consider onboarding with this port'')
                     # (if redirectPort \<in> set [''443'', ''8443'', ''8501'', ''8080'', ''80'']
                        then [''KNOWN PORT: Port '' @ redirectPort @ '' is a common OT device port'']
                        else []))
                    ctx2))"

definition curlServer :: "headers \<Rightarrow> debugContext \<Rightarrow> debugContext" where
  "curlServer h ctx =
     (case truthyHeader h ''server'' of
        None \<Rightarrow> ctx
      | Some serverHeader \<Rightarrow>
          if str_includes serverHeader ''hostname'' \<or> str_includes serverHeader ''Host''
          then pushRules
                 [(rule header add ''Server requires specific hostname'' 81)
                    \<lparr>headerName := Some ''Host'', headerValue := Some ''{{DEVICE_HOSTNAME}}''\<rparr>]
                 (pushIssues
                    [''HOSTNAME REQUIREMENT: Server header indicates hostname requirement: '' @ serverHeader]
                    ctx)
          else ctx)"

definition curlAuth :: "headers \<Rightarrow> debugContext \<Rightarrow> debugContext" where
  "curlAuth h ctx =
     (case truthyHeader h ''www-authenticate'' of
        None \<Rightarrow> ctx
      | Some wwwAuth \<Rightarrow>
          pushIssues
            ((''AUTHENTICATION: '' @ wwwAuth)
             # (if str_includes wwwAuth ''realm''
                then (case realmMatch wwwAuth of
                        None \<Rightarrow> []
                      | Some realm \<Rightarrow> [''AUTH REALM: '' @ realm])
                else []))
            ctx)"

definition curlCSP :: "headers \<Rightarrow> debugContext \<Rightarrow> debugContext" where
  "curlCSP h ctx =
     (case truthyHeader h ''content-security-policy'' of
        None \<Rightarrow> ctx
      | Some csp \<Rightarrow>
          pushIssues
            (''CSP DETECTED: Content Security Policy may block proxy resources''
             # (if str_includes csp ''localhost'' \<or> str_includes csp ''127.0.0.1''
                   \<or> str_includes csp ''192.168.''
                then [''CSP ISSUE: Policy contains local references that may cause issues'']
                else []))
            ctx)"

definition curlHSTS :: "headers \<Rightarrow> debugContext \<Rightarrow> debugContext" where
  "curlHSTS h ctx =
     (case truthyHeader h ''strict-transport-security'' of
        None \<Rightarrow> ctx
      | Some hsts \<Rightarrow>
          pushIssues [''HSTS DETECTED: '' @ hsts @ '' - may affect HTTP to HTTPS transitions''] ctx)"

definition curlCookie :: "runtime \<Rightarrow> headers \<Rightarrow> debugContext \<Rightarrow> debugContext" where
  "curlCookie rt h ctx =
     (case truthyHeader h ''set-cookie'' of
        None \<Rightarrow> ctx
      | Some setCookie \<Rightarrow>
          if str_includes setCookie ''domain='' \<and> isDeviceIPOrHostname rt ctx setCookie
          then pushRules
                 [(rule header replace ''Fix cookie domain reference'' 82)
                    \<lparr>headerName := Some ''Set-Cookie'', pattern := Some ''domain=[^;]+'',
                     replacement := Some ''domain={{DEVICE_EXTERNAL_FQDN}}''\<rparr>]
                 (pushIssues
                    [''COOKIE DOMAIN ISSUE: Set-Cookie contains device domain - may need rewrite'']
                    ctx)
          else ctx)"

definition curlFrame :: "headers \<Rightarrow> debugContext \<Rightarrow> debugContext" where
  "curlFrame h ctx =
     (case truthyHeader h ''x-frame-options'' of
        None \<Rightarrow> ctx
      | Some xFrame \<Rightarrow>
          if str_includes xFrame ''DENY'' \<or> str_includes xFrame ''SAMEORIGIN''
          then pushIssues
                 [''X-FRAME-OPTIONS: '' @ xFrame @ '' - may prevent iframe embedding in RA portal'']
                 ctx
          else ctx)"

definition step7_PerformCurlAnalysis :: "runtime \<Rightarrow> bool \<Rightarrow> env \<Rightarrow> debugContext \<Rightarrow> debugContext" where
  "step7_PerformCurlAnalysis rt pg ev ctx =
     (let ctx0 = ctx\<lparr>currentStep := ''Step 7: Perform Detailed Curl Analysis''\<rparr>;
          ctx1 = (if pg then deliver rt (arrivals ev) ctx0 else ctx0)
      in case fetchHead ev of
           Throws t \<Rightarrow>
             pushIssues
               [''Curl analysis failed: '' @ thrownText t,
                ''RECOMMENDATION: Try accessing device directly via jbox browser for manual analysis'']
               ctx1
         | Returns response \<Rightarrow>
             let h = frHeaders response;
                 ctx2 = pushIssues
                          [''CURL ANALYSIS: HTTP '' @ showNat (frStatus response) @ '' ''
                             @ frStatusText response]
                          (ctx1\<lparr>curlResults :=
                                  Some \<lparr> curlStatus = frStatus response,
                                         curlStatusText = frStatusText response,
                                         curlHeaders = h, curlUrl = frUrl response \<rparr>\<rparr>)
             in curlFrame h (curlCookie rt h (curlHSTS h (curlCSP h (curlAuth h
                  (curlServer h (curlLocation rt h ctx2)))))))"

section \<open>The server\<close>

record server =
  thoughtHistory :: "ThoughtData list"
  branches :: "(string \<times> ThoughtData list) list"
  browser :: bool
  page :: bool
  debugContext :: debugContext

definition initialServer :: server where
  "initialServer =
     \<lparr> thoughtHistory = [], branches = [], browser = False, page = False,
       debugContext = initialContext \<rparr>"

text \<open>An asynchronous method of the server returns the state it leaves and the value it
  threw, if it threw.\<close>

definition initBrowser :: "env \<Rightarrow> server \<Rightarrow> server \<times> thrown option" where
  "initBrowser ev s =
     (case (if \<not> browser s
            then (case launch ev of
                    Throws t \<Rightarrow> (s, Some t)
                  | Returns _ \<Rightarrow> (s\<lparr>browser := True\<rparr>, None))
            else (s, None)) of
        (s1, Some t) \<Rightarrow> (s1, Some t)
      | (s1, None) \<Rightarrow>
          if \<not> page s1
          then (case newContext ev of
                  Throws t \<Rightarrow> (s1, Some t)
                | Returns _ \<Rightarrow>
                    (case newPage ev of
                       Throws t \<Rightarrow> (s1, Some t)
                     | Returns _ \<Rightarrow> (s1\<lparr>page := True\<rparr>, None)))
          else (s1, None))"

definition closeBrowser :: "runtime \<Rightarrow> env \<Rightarrow> server \<Rightarrow> server \<times> thrown option" where
  "closeBrowser rt ev s =
     (case (if page s
            then (let s0 = s\<lparr>debugContext := deliver rt (arrivals ev) (debugContext s)\<rparr>
                  in case pageClose ev of
                       Throws t \<Rightarrow> (s0, Some t)
                     | Returns _ \<Rightarrow> (s0\<lparr>page := False\<rparr>, None))
            else (s, None)) of
        (s1, Some t) \<Rightarrow> (s1, Some t)
      | (s1, None) \<Rightarrow>
          if browser s1
          then (case browserClose ev of
                  Throws t \<Rightarrow> (s1, Some t)
                | Returns _ \<Rightarrow> (s1\<lparr>browser := False\<rparr>, None))
          else (s1, None))"

section \<open>Validation\<close>

definition newError :: "string \<Rightarrow> thrown" where
  "newError msg = Thrown msg (''Error: '' @ msg)"

fun asString :: "jsval \<Rightarrow> string" where
  "asString (JStr s) = s"
| "asString _ = []"

fun asNumber :: "jsval \<Rightarrow> rat" where
  "asNumber (JNum r) = r"
| "asNumber _ = 0"

fun asBoolean :: "jsval \<Rightarrow> bool" where
  "asBoolean (JBool b) = b"
| "asBoolean _ = False"

text \<open>\<^verbatim>\<open>validateThoughtData\<close>. Reading a property of \<^verbatim>\<open>null\<close> or \<^verbatim>\<open>undefined\<close> throws a
  \<^verbatim>\<open>TypeError\<close>. The three projections are applied only to values whose type the checks
  before them have established.\<close>

definition validateThoughtData :: "runtime \<Rightarrow> toolInput \<Rightarrow> thrown + ThoughtData" where
  "validateThoughtData rt input =
     (case input of
        Nullish \<Rightarrow> Inl (typeError rt)
      | Arguments data \<Rightarrow>
          if \<not> truthy (rawThought data) \<or> typeof (rawThought data) \<noteq> TString
          then Inl (newError ''Invalid thought: must be a string'')
          else if \<not> truthy (rawThoughtNumber data) \<or> typeof (rawThoughtNumber data) \<noteq> TNumber
          then Inl (newError ''Invalid thoughtNumber: must be a number'')
          else if \<not> truthy (rawTotalThoughts data) \<or> typeof (rawTotalThoughts data) \<noteq> TNumber
          then Inl (newError ''Invalid totalThoughts: must be a number'')
          else if typeof (rawNextThoughtNeeded data) \<noteq> TBoolean
          then Inl (newError ''Invalid nextThoughtNeeded: must be a boolean'')
          else Inr \<lparr> thought = asString (rawThought data),
                     thoughtNumber = asNumber (rawThoughtNumber data),
                     totalThoughts = asNumber (rawTotalThoughts data),
                     isRevision = rawIsRevision data,
                     revisesThought = rawRevisesThought data,
                     branchFromThought = rawBranchFromThought data,
                     branchId = rawBranchId data,
                     needsMoreThoughts = rawNeedsMoreThoughts data,
                     nextThoughtNeeded = asBoolean (rawNextThoughtNeeded data) \<rparr>)"

section \<open>The report\<close>

text \<open>The report without its five constant checklists. \<^verbatim>\<open>Array.prototype.sort\<close> is a stable
  sort (ECMAScript 2019; the server calls the global \<^verbatim>\<open>fetch\<close>, so it runs on a runtime of that
  edition or later) that sorts the array it is called on in place and returns that array:
  the catalog of the context is sorted too. Every priority is an integer literal of the
  source, so the comparator \<^verbatim>\<open>a.priority - b.priority\<close> orders by priority.\<close>

record report =
  repDeviceUrl :: string
  repDeviceIP :: string
  repDeviceHostname :: string
  repPageLoadStatus :: string
  repTotalIssues :: nat
  repSummaryTotalRules :: nat
  repStepsCompleted :: nat
  repIssuesFound :: "string list"
  defaultRules :: "RewriteRule list"
  headerRewrites :: "RewriteRule list"
  bodyRewrites :: "RewriteRule list"
  totalRules :: nat
  repTotalRequests :: nat
  repErrors404 :: nat
  repErrors500 :: nat
  repPrivateAPICalls :: nat
  repDeviceIPRequests :: nat
  recommendJSONBodyRewrite :: bool
  repTotalErrors :: nat
  repMimeTypeErrors :: nat
  repBootstrapJSErrors :: nat
  repWebsocketErrors :: nat
  repBrokenImages :: nat
  repBrokenLinks :: nat
  repRedirectsDetected :: nat
  hostnameRequirement :: bool
  realIPRequirement :: bool
  bootstrapJSIssue :: bool
  mimeTypeIssue :: bool
  redirectIssue :: bool
  tryAgainError :: bool
  error400Hostname :: bool

definition someIssue :: "debugContext \<Rightarrow> string \<Rightarrow> bool" where
  "someIssue ctx p = list_ex (\<lambda>i. str_includes i p) (issues ctx)"

definition generateFinalReport :: "server \<Rightarrow> server \<times> report" where
  "generateFinalReport s =
     (let sortedRules = sort_key priority (rewriteRules (debugContext s));
          ctx = (debugContext s)\<lparr>rewriteRules := sortedRules\<rparr>
      in (s\<lparr>debugContext := ctx\<rparr>,
          \<lparr> repDeviceUrl = deviceUrl ctx,
            repDeviceIP = deviceIP ctx,
            repDeviceHostname = deviceHostname ctx,
            repPageLoadStatus = pageLoadStatus ctx,
            repTotalIssues = length (issues ctx),
            repSummaryTotalRules = length sortedRules,
            repStepsCompleted = length (thoughtHistory s),
            repIssuesFound = issues ctx,
            defaultRules = filter (\<lambda>r. rtype r = default_type) sortedRules,
            headerRewrites = filter (\<lambda>r. rtype r = header) sortedRules,
            bodyRewrites = filter (\<lambda>r. rtype r = body) sortedRules,
            totalRules = length sortedRules,
            repTotalRequests = length (networkRequests ctx),
            repErrors404 = length (filter (\<lambda>r. status r = Some 404) (networkRequests ctx)),
            repErrors500 = length (filter (\<lambda>r. status r = Some 500) (networkRequests ctx)),
            repPrivateAPICalls = length (filter isPrivateAPI (networkRequests ctx)),
            repDeviceIPRequests = length (filter isDeviceIP (networkRequests ctx)),
            recommendJSONBodyRewrite = (length (filter isPrivateAPI (networkRequests ctx)) > 0),
            repTotalErrors = length (consoleErrors ctx),
            repMimeTypeErrors = length (filter isMimeType (consoleErrors ctx)),
            repBootstrapJSErrors = length (filter isBootstrapJS (consoleErrors ctx)),
            repWebsocketErrors =
              length (filter (\<lambda>e. str_includes (message e) ''websocket'') (consoleErrors ctx)),
            repBrokenImages = length (brokenImages ctx),
            repBrokenLinks = length (brokenLinks ctx),
            repRedirectsDetected = length (redirects ctx),
            hostnameRequirement = someIssue ctx ''hostname'',
            realIPRequirement = someIssue ctx ''Real IP'',
            bootstrapJSIssue = someIssue ctx ''bootstrap.js'',
            mimeTypeIssue = someIssue ctx ''MIME type'',
            redirectIssue = someIssue ctx ''redirect'',
            tryAgainError = someIssue ctx ''Try again'',
            error400Hostname = someIssue ctx ''400 hostname'' \<rparr>))"

section \<open>The step dispatcher\<close>

record responseData =
  rsThoughtNumber :: rat
  rsTotalThoughts :: rat
  rsNextThoughtNeeded :: bool
  rsCurrentStep :: string
  rsDeviceUrl :: string
  rsPageLoadStatus :: string
  rsIssuesFound :: nat
  rsRewriteRules :: nat
  rsNetworkRequests :: nat
  rsConsoleErrors :: nat
  rsBrokenImages :: nat
  rsBrokenLinks :: nat
  rsRedirects :: nat
  fullReport :: "report option"

text \<open>The object \<^verbatim>\<open>processLegacyDeviceDebug\<close> returns, before \<^verbatim>\<open>JSON.stringify\<close>: the summary,
  or the error message with status \<^verbatim>\<open>failed\<close>; and the flag \<^verbatim>\<open>isError\<close>, which is absent
  (\<open>False\<close>) on a summary.\<close>

datatype payload = Summary responseData | Failed string

record response =
  content :: payload
  isError :: bool

definition errorResponse :: "thrown \<Rightarrow> response" where
  "errorResponse t = \<lparr> content = Failed (thrownMessage t), isError = True \<rparr>"

definition discoverTarget :: "runtime \<Rightarrow> string \<Rightarrow> debugContext \<Rightarrow> debugContext \<times> thrown option" where
  "discoverTarget rt th ctx =
     (case urlMatch th of
        None \<Rightarrow> (ctx, None)
      | Some u \<Rightarrow>
          if deviceUrl ctx \<noteq> [] then (ctx, None)
          else (case parseURL rt u of
                  None \<Rightarrow> (ctx\<lparr>deviceUrl := u\<rparr>, Some (invalidURL rt))
                | Some urlObj \<Rightarrow>
                    (ctx\<lparr>deviceUrl := u, deviceIP := hostname urlObj,
                         deviceHostname := hostname urlObj\<rparr>, None)))"

definition correctTotal :: "ThoughtData \<Rightarrow> ThoughtData" where
  "correctTotal v =
     (if thoughtNumber v > totalThoughts v then v\<lparr>totalThoughts := thoughtNumber v\<rparr> else v)"

text \<open>\<^verbatim>\<open>branches\<close> is an object literal: a branch identifier that names a property of
  \<^verbatim>\<open>Object.prototype\<close> reads as that property, which is truthy and has no \<^verbatim>\<open>push\<close>.\<close>

definition objectPrototypeKeys :: "string list" where
  "objectPrototypeKeys =
     [''constructor'', ''__defineGetter__'', ''__defineSetter__'', ''hasOwnProperty'',
      ''__lookupGetter__'', ''__lookupSetter__'', ''isPrototypeOf'', ''propertyIsEnumerable'',
      ''toString'', ''valueOf'', ''__proto__'', ''toLocaleString'']"

definition pushBranch :: "string \<Rightarrow> ThoughtData \<Rightarrow> (string \<times> ThoughtData list) list \<Rightarrow> (string \<times> ThoughtData list) list" where
  "pushBranch k v bs =
     (case map_of bs k of
        None \<Rightarrow> bs @ [(k, [v])]
      | Some _ \<Rightarrow> map (\<lambda>(k', vs). if k' = k then (k', vs @ [v]) else (k', vs)) bs)"

definition recordBranch :: "runtime \<Rightarrow> ThoughtData \<Rightarrow> server \<Rightarrow> server \<times> thrown option" where
  "recordBranch rt v s =
     (case (branchFromThought v, branchId v) of
        (Some n, Some k) \<Rightarrow>
          if n \<noteq> 0 \<and> k \<noteq> []
          then (if k \<in> set objectPrototypeKeys then (s, Some (typeError rt))
                else (s\<lparr>branches := pushBranch k v (branches s)\<rparr>, None))
          else (s, None)
      | _ \<Rightarrow> (s, None))"

definition onContext :: "(debugContext \<Rightarrow> debugContext) \<Rightarrow> server \<Rightarrow> server \<times> thrown option" where
  "onContext f s = (s\<lparr>debugContext := f (debugContext s)\<rparr>, None)"

text \<open>The chain of conditionals of \<^verbatim>\<open>processLegacyDeviceDebug\<close>, on the text of the step.\<close>

definition dispatch :: "runtime \<Rightarrow> env \<Rightarrow> string \<Rightarrow> server \<Rightarrow> server \<times> thrown option" where
  "dispatch rt ev th s =
     (let t = toLowerCase th
      in if str_includes t ''start'' \<or> str_includes t ''initialize''
         then (case initBrowser ev s of
                 (s1, Some e) \<Rightarrow> (s1, Some e)
               | (s1, None) \<Rightarrow> onContext step1_EnableDefaultRules s1)
         else if str_includes t ''page load'' \<or> str_includes t ''login page''
         then onContext (step2_AnalyzePageLoading rt (page s) ev) s
         else if str_includes t ''images'' \<or> str_includes t ''links'' \<or> str_includes t ''resources''
         then onContext (step3_AnalyzeResources rt (page s) ev) s
         else if str_includes t ''websocket'' \<or> str_includes t ''ws://''
         then onContext (step4_AnalyzeWebSocket rt (page s) ev) s
         else if str_includes t ''redirect'' \<or> str_includes t ''port''
         then onContext step5_AnalyzeRedirects s
         else if str_includes t ''network'' \<or> str_includes t ''console'' \<or> str_includes t ''error''
         then onContext (step6_AnalyzeNetworkAndConsole rt) s
         else if str_includes t ''curl'' \<or> str_includes t ''header''
         then onContext (step7_PerformCurlAnalysis rt (page s) ev) s
         else if str_includes t ''finish'' \<or> str_includes t ''complete''
         then closeBrowser rt ev s
         else (s, None))"

definition summarize :: "ThoughtData \<Rightarrow> debugContext \<Rightarrow> responseData" where
  "summarize v ctx =
     \<lparr> rsThoughtNumber = thoughtNumber v,
       rsTotalThoughts = totalThoughts v,
       rsNextThoughtNeeded = nextThoughtNeeded v,
       rsCurrentStep = currentStep ctx,
       rsDeviceUrl = deviceUrl ctx,
       rsPageLoadStatus = pageLoadStatus ctx,
       rsIssuesFound = length (issues ctx),
       rsRewriteRules = length (rewriteRules ctx),
       rsNetworkRequests = length (networkRequests ctx),
       rsConsoleErrors = length (consoleErrors ctx),
       rsBrokenImages = length (brokenImages ctx),
       rsBrokenLinks = length (brokenLinks ctx),
       rsRedirects = length (redirects ctx),
       fullReport = None \<rparr>"

definition respond :: "ThoughtData \<Rightarrow> server \<Rightarrow> server \<times> response" where
  "respond v s =
     (let responseData = summarize v (debugContext s)
      in if \<not> nextThoughtNeeded v
         then (case generateFinalReport s of
                 (s', rep) \<Rightarrow>
                   (s', \<lparr> content = Summary (responseData\<lparr>fullReport := Some rep\<rparr>),
                         isError = False \<rparr>))
         else (s, \<lparr> content = Summary responseData, isError = False \<rparr>))"

definition processLegacyDeviceDebug :: "runtime \<Rightarrow> env \<Rightarrow> toolInput \<Rightarrow> server \<Rightarrow> server \<times> response" where
  "processLegacyDeviceDebug rt ev input s =
     (case validateThoughtData rt input of
        Inl t \<Rightarrow> (s, errorResponse t)
      | Inr validatedInput \<Rightarrow>
          (case discoverTarget rt (thought validatedInput) (debugContext s) of
             (ctx, Some t) \<Rightarrow> (s\<lparr>debugContext := ctx\<rparr>, errorResponse t)
           | (ctx, None) \<Rightarrow>
               let v = correctTotal validatedInput;
                   s1 = s\<lparr>debugContext := ctx, thoughtHistory := thoughtHistory s @ [v]\<rparr>
               in (case recordBranch rt v s1 of
                     (s2, Some t) \<Rightarrow> (s2, errorResponse t)
                   | (s2, None) \<Rightarrow>
                       (case dispatch rt ev (thought validatedInput) s2 of
                          (s3, Some t) \<Rightarrow> (s3, errorResponse t)
                        | (s3, None) \<Rightarrow> respond v s3))))"

section \<open>Sessions\<close>

text \<open>A session is a sequence of submitted steps and of page events that arrive between
  steps; the page delivers events only while it exists.\<close>

datatype event = Submit toolInput env | Page pageEvent

fun step :: "runtime \<Rightarrow> event \<Rightarrow> server \<Rightarrow> server" where
  "step rt (Submit input ev) s = fst (processLegacyDeviceDebug rt ev input s)"
| "step rt (Page e) s =
     (if page s then s\<lparr>debugContext := handleEvent rt e (debugContext s)\<rparr> else s)"

fun run :: "runtime \<Rightarrow> event list \<Rightarrow> server \<Rightarrow> server" where
  "run rt [] s = s"
| "run rt (e # es) s = run rt es (step rt e s)"

section \<open>Example inputs\<close>

text \<open>
  A parser for plain \<^verbatim>\<open>http\<close> and \<^verbatim>\<open>https\<close> URLs (a host written in lower case, an optional
  port, a path, no credentials and no escapes), on which it returns the \<^verbatim>\<open>hostname\<close> and the
  \<^verbatim>\<open>pathname\<close> the URL parser of the runtime returns, and which, like it, rejects an empty
  host. It instantiates the parser in the examples only; every theorem below holds for
  every parser.
\<close>

definition exampleParseURL :: "string \<Rightarrow> url option" where
  "exampleParseURL s =
     (case (if prefix ''https://'' s then Some (drop 8 s)
            else if prefix ''http://'' s then Some (drop 7 s) else None) of
        None \<Rightarrow> None
      | Some r \<Rightarrow>
          let authority = takeWhile (\<lambda>c. c \<notin> set ''/?#'') r;
              host = takeWhile (\<lambda>c. c \<noteq> CHR '':'') authority;
              p = takeWhile (\<lambda>c. c \<notin> set ''?#'') (dropWhile (\<lambda>c. c \<notin> set ''/?#'') r)
          in if host = [] then None
             else Some \<lparr> hostname = host, pathname = (if p = [] then ''/'' else p) \<rparr>)"

definition exampleRuntime :: runtime where
  "exampleRuntime =
     \<lparr> parseURL = exampleParseURL,
       invalidURL = Thrown ''Invalid URL'' ''TypeError: Invalid URL'',
       typeError = Thrown ''Cannot read properties'' ''TypeError: Cannot read properties'' \<rparr>"

text \<open>Collaborators that answer every call, and a step with no optional field.\<close>

definition exampleEnv :: env where
  "exampleEnv =
     \<lparr> launch = Returns (), newContext = Returns (), newPage = Returns (),
       goto = Returns (Some 200),
       evalPageContent = Returns \<lparr> hasBody = True, bodyLength = 2048, hasLoginForm = True,
                                  pageTitle = ''Login'', hasTryAgainMessage = False \<rparr>,
       evalResources = Returns \<lparr> raBrokenImages = [], raAllImages = [], raDeviceIPLinks = [],
                                raScriptSources = [], raStylesheetSources = [],
                                raStaticResources = [] \<rparr>,
       evalHasWebSocket = Returns False,
       fetchHead = Returns \<lparr> frStatus = 200, frStatusText = ''OK'',
                            frHeaders = [(''server'', ''needs Host header'')], frUrl = [] \<rparr>,
       pageClose = Returns (), browserClose = Returns (), arrivals = [] \<rparr>"

definition exampleStep :: "string \<Rightarrow> rat \<Rightarrow> rat \<Rightarrow> bool \<Rightarrow> toolInput" where
  "exampleStep t n m b =
     Arguments \<lparr> rawThought = JStr t, rawThoughtNumber = JNum n, rawTotalThoughts = JNum m,
                 rawNextThoughtNeeded = JBool b, rawIsRevision = None, rawRevisesThought = None,
                 rawBranchFromThought = None, rawBranchId = None, rawNeedsMoreThoughts = None \<rparr>"

definition exampleThought :: "string \<Rightarrow> rat \<Rightarrow> rat \<Rightarrow> bool \<Rightarrow> ThoughtData" where
  "exampleThought t n m b =
     \<lparr> thought = t, thoughtNumber = n, totalThoughts = m, isRevision = None,
       revisesThought = None, branchFromThought = None, branchId = None,
       needsMoreThoughts = None, nextThoughtNeeded = b \<rparr>"

definition exampleMalformed :: toolInput where
  "exampleMalformed =
     Arguments \<lparr> rawThought = JUndefined, rawThoughtNumber = JNum 2, rawTotalThoughts = JNum 3,
                 rawNextThoughtNeeded = JBool True, rawIsRevision = None,
                 rawRevisesThought = None, rawBranchFromThought = None, rawBranchId = None,
                 rawNeedsMoreThoughts = None \<rparr>"

text \<open>The session after a first step that names the target; that session after a step
  whose number exceeds its total; and a session whose catalog is not in priority order: a
  header probe whose \<^verbatim>\<open>Server\<close> header asks for a host (priority 81), then the start step
  (priorities 1 to 4).\<close>

definition exampleSession :: server where
  "exampleSession =
     fst (processLegacyDeviceDebug exampleRuntime exampleEnv
            (exampleStep ''start debugging http://192.168.1.100:8080'' 1 3 True) initialServer)"

definition exampleRaised :: "server \<times> response" where
  "exampleRaised =
     processLegacyDeviceDebug exampleRuntime exampleEnv
       (exampleStep ''check the console'' 5 3 True) exampleSession"

definition exampleUnsorted :: server where
  "exampleUnsorted =
     run exampleRuntime
       [Submit (exampleStep ''curl http://192.168.1.100:8080'' 1 3 True) exampleEnv,
        Submit (exampleStep ''start'' 2 3 True) exampleEnv]
       initialServer"

text \<open>A catalog with two rules of equal priority, and a context with one console error
  that carries the bootstrap signature.\<close>

definition exampleCatalog :: "RewriteRule list" where
  "exampleCatalog = [staticRule ''/static/b.js'', staticRule ''/static/a.js''] @ baselineRules"

definition exampleConsole :: debugContext where
  "exampleConsole =
     onConsole ''error'' ''Bootstrap.js: Mixed Content: the page requested a resource over https''
       None None initialContext"

section \<open>Notions used in the statements and proofs\<close>

text \<open>The target identity of a context; and the property that no stored request is marked
  as targeting the device.\<close>

definition target :: "debugContext \<Rightarrow> string \<times> string \<times> string" where
  "target ctx = (deviceUrl ctx, deviceIP ctx, deviceHostname ctx)"

definition unmarked :: "debugContext \<Rightarrow> bool" where
  "unmarked ctx = list_all (\<lambda>r. \<not> isDeviceIP r) (networkRequests ctx)"

text \<open>The part of \<^verbatim>\<open>processLegacyDeviceDebug\<close> that follows target discovery, for a
  validated step.\<close>

definition afterDiscovery :: "runtime \<Rightarrow> env \<Rightarrow> ThoughtData \<Rightarrow> server \<Rightarrow> server \<times> response" where
  "afterDiscovery rt ev validatedInput s1 =
     (case recordBranch rt (correctTotal validatedInput) s1 of
        (s2, Some t) \<Rightarrow> (s2, errorResponse t)
      | (s2, None) \<Rightarrow>
          (case dispatch rt ev (thought validatedInput) s2 of
             (s3, Some t) \<Rightarrow> (s3, errorResponse t)
           | (s3, None) \<Rightarrow> respond (correctTotal validatedInput) s3))"

text \<open>The state in which further rules have been appended to the catalog.\<close>

definition withRules :: "RewriteRule list \<Rightarrow> server \<Rightarrow> server" where
  "withRules rs s = s\<lparr>debugContext := pushRules rs (debugContext s)\<rparr>"

text \<open>The two advisory entries of the bootstrap signature.\<close>

definition isAdvisory :: "string \<Rightarrow> bool" where
  "isAdvisory i = (i = ''NOTE: If bootstrap.js file is updated, this rule may need adjustment''
                   \<or> i = ''ALTERNATIVE: If HTTPS is properly configured on device, onboard as HTTPS and remove this rule'')"

section \<open>The phase table of the specification\<close>

text \<open>
  The phase table of the specification (section 4.3): the seven phases in dispatch order,
  each with its trigger keywords; the first phase with a keyword that occurs in the
  lower-cased text of the step; and the analyzer of each phase (phase 1 acquires the page
  inspector first).
\<close>

datatype phase =
  EnableDefaults | PageLoad | Resources | WebSocket | Redirects | NetworkConsole | CurlProbe





section \<open>What the phases and the dispatcher leave unchanged\<close>

text \<open>No phase analyzer, page event or stage of the dispatcher other than target discovery
  writes the target identity; none clears \<open>defaultRulesEnabled\<close>; and while no target is set
  none stores a request marked as targeting the device.\<close>

lemma closed_no_target: "deviceUrl c = [] \<Longrightarrow> \<not> isDeviceIPOrHostname rt c u"
  by (simp add: isDeviceIPOrHostname_def)

lemma pushIssues_frame [simp]:
  "target (pushIssues xs c) = target c"
  "deviceUrl (pushIssues xs c) = deviceUrl c"
  "defaultRulesEnabled (pushIssues xs c) = defaultRulesEnabled c"
  "unmarked (pushIssues xs c) = unmarked c"
  by (simp_all add: pushIssues_def target_def unmarked_def)

lemma pushRules_frame [simp]:
  "target (pushRules rs c) = target c"
  "deviceUrl (pushRules rs c) = deviceUrl c"
  "defaultRulesEnabled (pushRules rs c) = defaultRulesEnabled c"
  "unmarked (pushRules rs c) = unmarked c"
  by (simp_all add: pushRules_def target_def unmarked_def)

lemma update_frame [simp]:
  "target (c\<lparr>currentStep := x\<rparr>) = target c"
  "target (c\<lparr>pageLoadStatus := x\<rparr>) = target c"
  "target (c\<lparr>brokenImages := l\<rparr>) = target c"
  "target (c\<lparr>brokenLinks := l\<rparr>) = target c"
  "target (c\<lparr>websocketIssues := l\<rparr>) = target c"
  "target (c\<lparr>redirects := ns\<rparr>) = target c"
  "target (c\<lparr>curlResults := cr\<rparr>) = target c"
  "target (c\<lparr>defaultRulesEnabled := b\<rparr>) = target c"
  "target (c\<lparr>rewriteRules := rs\<rparr>) = target c"
  "unmarked (c\<lparr>currentStep := x\<rparr>) = unmarked c"
  "unmarked (c\<lparr>pageLoadStatus := x\<rparr>) = unmarked c"
  "unmarked (c\<lparr>brokenImages := l\<rparr>) = unmarked c"
  "unmarked (c\<lparr>brokenLinks := l\<rparr>) = unmarked c"
  "unmarked (c\<lparr>websocketIssues := l\<rparr>) = unmarked c"
  "unmarked (c\<lparr>redirects := ns\<rparr>) = unmarked c"
  "unmarked (c\<lparr>curlResults := cr\<rparr>) = unmarked c"
  "unmarked (c\<lparr>defaultRulesEnabled := b\<rparr>) = unmarked c"
  "unmarked (c\<lparr>rewriteRules := rs\<rparr>) = unmarked c"
  by (simp_all add: target_def unmarked_def)

lemma unmarked_updateFirst:
  "list_all (\<lambda>r. \<not> isDeviceIP r) (updateFirst u st h rs) = list_all (\<lambda>r. \<not> isDeviceIP r) rs"
  by (induction rs) auto

lemma handleEvent_frame [simp]:
  "target (handleEvent rt e c) = target c"
  "deviceUrl (handleEvent rt e c) = deviceUrl c"
  "defaultRulesEnabled (handleEvent rt e c) = defaultRulesEnabled c"
  by (cases e; simp add: onRequest_def onResponse_def onConsole_def Let_def target_def)+

lemma unmarked_handleEvent:
  "deviceUrl c = [] \<Longrightarrow> unmarked c \<Longrightarrow> unmarked (handleEvent rt e c)"
  by (cases e)
     (simp_all add: unmarked_def onRequest_def onResponse_def onConsole_def Let_def
        closed_no_target unmarked_updateFirst)

lemma deliver_frame [simp]:
  "target (deliver rt es c) = target c"
  "deviceUrl (deliver rt es c) = deviceUrl c"
  "defaultRulesEnabled (deliver rt es c) = defaultRulesEnabled c"
  by (induction es arbitrary: c; simp)+

lemma unmarked_deliver [simp]:
  "deviceUrl c = [] \<Longrightarrow> unmarked c \<Longrightarrow> unmarked (deliver rt es c)"
  by (induction es arbitrary: c) (simp_all add: unmarked_handleEvent)

lemma step1_frame [simp]:
  "target (step1_EnableDefaultRules c) = target c"
  "unmarked (step1_EnableDefaultRules c) = unmarked c"
  "defaultRulesEnabled (step1_EnableDefaultRules c)"
  by (simp_all add: step1_EnableDefaultRules_def)

lemma analyzeContent_frame [simp]:
  "target (analyzeContent st pc c) = target c"
  "defaultRulesEnabled (analyzeContent st pc c) = defaultRulesEnabled c"
  "unmarked (analyzeContent st pc c) = unmarked c"
  by (simp_all add: analyzeContent_def Let_def)

lemma step2_frame [simp]:
  "target (step2_AnalyzePageLoading rt pg ev c) = target c"
  "defaultRulesEnabled (step2_AnalyzePageLoading rt pg ev c) = defaultRulesEnabled c"
  by (simp_all add: step2_AnalyzePageLoading_def step2_catch_def Let_def
        split: outcome.splits option.splits)

lemma step2_unmarked: "deviceUrl c = [] \<Longrightarrow> step2_AnalyzePageLoading rt pg ev c = c"
  by (simp add: step2_AnalyzePageLoading_def)

lemma step3_frame [simp]:
  "target (step3_AnalyzeResources rt pg ev c) = target c"
  "defaultRulesEnabled (step3_AnalyzeResources rt pg ev c) = defaultRulesEnabled c"
  by (simp_all add: step3_AnalyzeResources_def Let_def split: outcome.splits)

lemma step3_unmarked:
  "deviceUrl c = [] \<Longrightarrow> unmarked c \<Longrightarrow> unmarked (step3_AnalyzeResources rt pg ev c)"
  by (simp add: step3_AnalyzeResources_def Let_def split: outcome.splits)

lemma step4_frame [simp]:
  "target (step4_AnalyzeWebSocket rt pg ev c) = target c"
  "defaultRulesEnabled (step4_AnalyzeWebSocket rt pg ev c) = defaultRulesEnabled c"
  by (simp_all add: step4_AnalyzeWebSocket_def Let_def split: outcome.splits option.splits)

lemma step4_unmarked:
  "deviceUrl c = [] \<Longrightarrow> unmarked c \<Longrightarrow> unmarked (step4_AnalyzeWebSocket rt pg ev c)"
  by (simp add: step4_AnalyzeWebSocket_def Let_def split: outcome.splits option.splits)

lemma step5_frame [simp]:
  "target (step5_AnalyzeRedirects c) = target c"
  "defaultRulesEnabled (step5_AnalyzeRedirects c) = defaultRulesEnabled c"
  "unmarked (step5_AnalyzeRedirects c) = unmarked c"
  by (simp_all add: step5_AnalyzeRedirects_def Let_def)

lemma step6_blocks_frame [simp]:
  "target (analyzeNetworkErrors rt c) = target c"
  "defaultRulesEnabled (analyzeNetworkErrors rt c) = defaultRulesEnabled c"
  "unmarked (analyzeNetworkErrors rt c) = unmarked c"
  "target (analyzeMimeTypes c) = target c"
  "defaultRulesEnabled (analyzeMimeTypes c) = defaultRulesEnabled c"
  "unmarked (analyzeMimeTypes c) = unmarked c"
  "target (analyzeBootstrap c) = target c"
  "defaultRulesEnabled (analyzeBootstrap c) = defaultRulesEnabled c"
  "unmarked (analyzeBootstrap c) = unmarked c"
  "target (analyzePrivateAPI c) = target c"
  "defaultRulesEnabled (analyzePrivateAPI c) = defaultRulesEnabled c"
  "unmarked (analyzePrivateAPI c) = unmarked c"
  "target (analyzeConsolePatterns c) = target c"
  "defaultRulesEnabled (analyzeConsolePatterns c) = defaultRulesEnabled c"
  "unmarked (analyzeConsolePatterns c) = unmarked c"
  by (simp_all add: analyzeNetworkErrors_def analyzeMimeTypes_def analyzeBootstrap_def
        analyzePrivateAPI_def analyzeConsolePatterns_def Let_def)

lemma step6_frame [simp]:
  "target (step6_AnalyzeNetworkAndConsole rt c) = target c"
  "defaultRulesEnabled (step6_AnalyzeNetworkAndConsole rt c) = defaultRulesEnabled c"
  "unmarked (step6_AnalyzeNetworkAndConsole rt c) = unmarked c"
  by (simp_all add: step6_AnalyzeNetworkAndConsole_def)

lemma step7_blocks_frame [simp]:
  "target (curlLocation rt h c) = target c"
  "defaultRulesEnabled (curlLocation rt h c) = defaultRulesEnabled c"
  "unmarked (curlLocation rt h c) = unmarked c"
  "target (curlServer h c) = target c"
  "defaultRulesEnabled (curlServer h c) = defaultRulesEnabled c"
  "unmarked (curlServer h c) = unmarked c"
  "target (curlAuth h c) = target c"
  "defaultRulesEnabled (curlAuth h c) = defaultRulesEnabled c"
  "unmarked (curlAuth h c) = unmarked c"
  "target (curlCSP h c) = target c"
  "defaultRulesEnabled (curlCSP h c) = defaultRulesEnabled c"
  "unmarked (curlCSP h c) = unmarked c"
  "target (curlHSTS h c) = target c"
  "defaultRulesEnabled (curlHSTS h c) = defaultRulesEnabled c"
  "unmarked (curlHSTS h c) = unmarked c"
  "target (curlCookie rt h c) = target c"
  "defaultRulesEnabled (curlCookie rt h c) = defaultRulesEnabled c"
  "unmarked (curlCookie rt h c) = unmarked c"
  "target (curlFrame h c) = target c"
  "defaultRulesEnabled (curlFrame h c) = defaultRulesEnabled c"
  "unmarked (curlFrame h c) = unmarked c"
  by (simp_all add: curlLocation_def curlServer_def curlAuth_def curlCSP_def curlHSTS_def
        curlCookie_def curlFrame_def Let_def split: option.splits)

lemma step7_frame [simp]:
  "target (step7_PerformCurlAnalysis rt pg ev c) = target c"
  "defaultRulesEnabled (step7_PerformCurlAnalysis rt pg ev c) = defaultRulesEnabled c"
  by (simp_all add: step7_PerformCurlAnalysis_def Let_def split: outcome.splits)

lemma step7_unmarked:
  "deviceUrl c = [] \<Longrightarrow> unmarked c \<Longrightarrow> unmarked (step7_PerformCurlAnalysis rt pg ev c)"
  by (simp add: step7_PerformCurlAnalysis_def Let_def split: outcome.splits)

subsection \<open>The dispatcher\<close>

lemma initBrowser_frame [simp]:
  "debugContext (fst (initBrowser ev s)) = debugContext s"
  "thoughtHistory (fst (initBrowser ev s)) = thoughtHistory s"
  by (simp_all add: initBrowser_def split: outcome.splits)

lemma closeBrowser_frame [simp]:
  "target (debugContext (fst (closeBrowser rt ev s))) = target (debugContext s)"
  "defaultRulesEnabled (debugContext (fst (closeBrowser rt ev s))) = defaultRulesEnabled (debugContext s)"
  "thoughtHistory (fst (closeBrowser rt ev s)) = thoughtHistory s"
  by (simp_all add: closeBrowser_def Let_def split: outcome.splits)

lemma closeBrowser_unmarked:
  "deviceUrl (debugContext s) = [] \<Longrightarrow> unmarked (debugContext s)
     \<Longrightarrow> unmarked (debugContext (fst (closeBrowser rt ev s)))"
  by (simp add: closeBrowser_def Let_def split: outcome.splits)

lemma onContext_frame [simp]:
  "debugContext (fst (onContext f s)) = f (debugContext s)"
  "thoughtHistory (fst (onContext f s)) = thoughtHistory s"
  by (simp_all add: onContext_def)

lemma start_branch:
  "fst (case initBrowser ev s of (s1, Some e) \<Rightarrow> (s1, Some e) | (s1, None) \<Rightarrow> onContext f s1)
     = (if snd (initBrowser ev s) = None
        then (fst (initBrowser ev s))\<lparr>debugContext := f (debugContext s)\<rparr>
        else fst (initBrowser ev s))"
proof (cases "initBrowser ev s")
  case (Pair s1 r)
  then have "debugContext s1 = debugContext s"
    using initBrowser_frame(1) [of ev s] by simp
  with Pair show ?thesis by (cases r) (simp_all add: onContext_def)
qed

lemma dispatch_target [simp]:
  "target (debugContext (fst (dispatch rt ev th s))) = target (debugContext s)"
  unfolding dispatch_def Let_def by (simp add: start_branch)

lemma dispatch_history [simp]:
  "thoughtHistory (fst (dispatch rt ev th s)) = thoughtHistory s"
  unfolding dispatch_def Let_def by (simp add: start_branch)

lemma dispatch_enabled:
  "defaultRulesEnabled (debugContext s) \<Longrightarrow> defaultRulesEnabled (debugContext (fst (dispatch rt ev th s)))"
  unfolding dispatch_def Let_def by (simp add: start_branch)

lemma dispatch_unmarked:
  "deviceUrl (debugContext s) = [] \<Longrightarrow> unmarked (debugContext s)
     \<Longrightarrow> unmarked (debugContext (fst (dispatch rt ev th s)))"
  unfolding dispatch_def Let_def
  by (simp add: start_branch step2_unmarked step3_unmarked step4_unmarked step7_unmarked
        closeBrowser_unmarked)

lemma generateFinalReport_frame [simp]:
  "target (debugContext (fst (generateFinalReport s))) = target (debugContext s)"
  "defaultRulesEnabled (debugContext (fst (generateFinalReport s))) = defaultRulesEnabled (debugContext s)"
  "unmarked (debugContext (fst (generateFinalReport s))) = unmarked (debugContext s)"
  "thoughtHistory (fst (generateFinalReport s)) = thoughtHistory s"
  by (simp_all add: generateFinalReport_def Let_def)

lemma respond_frame [simp]:
  "target (debugContext (fst (respond v s))) = target (debugContext s)"
  "defaultRulesEnabled (debugContext (fst (respond v s))) = defaultRulesEnabled (debugContext s)"
  "unmarked (debugContext (fst (respond v s))) = unmarked (debugContext s)"
  "thoughtHistory (fst (respond v s)) = thoughtHistory s"
  by (simp_all add: respond_def Let_def split: prod.splits)
     (metis fst_conv generateFinalReport_frame)+

lemma recordBranch_frame [simp]:
  "debugContext (fst (recordBranch rt v s)) = debugContext s"
  "thoughtHistory (fst (recordBranch rt v s)) = thoughtHistory s"
  by (simp_all add: recordBranch_def split: option.splits)

lemma discoverTarget_set: "deviceUrl c \<noteq> [] \<Longrightarrow> discoverTarget rt th c = (c, None)"
  by (simp add: discoverTarget_def split: option.splits)

lemma discoverTarget_none: "urlMatch th = None \<Longrightarrow> discoverTarget rt th c = (c, None)"
  by (simp add: discoverTarget_def)

lemma discoverTarget_frame [simp]:
  "defaultRulesEnabled (fst (discoverTarget rt th c)) = defaultRulesEnabled c"
  "unmarked (fst (discoverTarget rt th c)) = unmarked c"
  by (simp_all add: discoverTarget_def unmarked_def split: option.splits)

lemma process_unfold:
  "processLegacyDeviceDebug rt ev input s =
     (case validateThoughtData rt input of
        Inl t \<Rightarrow> (s, errorResponse t)
      | Inr v \<Rightarrow>
          (case discoverTarget rt (thought v) (debugContext s) of
             (ctx, Some t) \<Rightarrow> (s\<lparr>debugContext := ctx\<rparr>, errorResponse t)
           | (ctx, None) \<Rightarrow>
               afterDiscovery rt ev v
                 (s\<lparr>debugContext := ctx, thoughtHistory := thoughtHistory s @ [correctTotal v]\<rparr>)))"
  by (simp add: processLegacyDeviceDebug_def afterDiscovery_def Let_def
        split: sum.splits prod.splits option.splits)

lemma afterDiscovery_frame [simp]:
  "target (debugContext (fst (afterDiscovery rt ev v s))) = target (debugContext s)"
  "thoughtHistory (fst (afterDiscovery rt ev v s)) = thoughtHistory s"
proof -
  obtain s2 r2 where rb: "recordBranch rt (correctTotal v) s = (s2, r2)" by force
  then have s2: "debugContext s2 = debugContext s" "thoughtHistory s2 = thoughtHistory s"
    using recordBranch_frame [of rt "correctTotal v" s] by simp_all
  obtain s3 r3 where d: "dispatch rt ev (thought v) s2 = (s3, r3)" by force
  then have s3: "target (debugContext s3) = target (debugContext s2)"
      "thoughtHistory s3 = thoughtHistory s2"
    using dispatch_target [of rt ev "thought v" s2] dispatch_history [of rt ev "thought v" s2]
    by simp_all
  show "target (debugContext (fst (afterDiscovery rt ev v s))) = target (debugContext s)"
    using rb d s2 s3 by (cases r2; cases r3) (simp_all add: afterDiscovery_def)
  show "thoughtHistory (fst (afterDiscovery rt ev v s)) = thoughtHistory s"
    using rb d s2 s3 by (cases r2; cases r3) (simp_all add: afterDiscovery_def)
qed

lemma afterDiscovery_enabled:
  "defaultRulesEnabled (debugContext s)
     \<Longrightarrow> defaultRulesEnabled (debugContext (fst (afterDiscovery rt ev v s)))"
proof -
  assume en: "defaultRulesEnabled (debugContext s)"
  obtain s2 r2 where rb: "recordBranch rt (correctTotal v) s = (s2, r2)" by force
  then have s2: "debugContext s2 = debugContext s"
    using recordBranch_frame [of rt "correctTotal v" s] by simp
  obtain s3 r3 where d: "dispatch rt ev (thought v) s2 = (s3, r3)" by force
  then have s3: "defaultRulesEnabled (debugContext s3)"
    using dispatch_enabled [of s2 rt ev "thought v"] en s2 by simp
  show ?thesis
    using rb d s2 s3 en by (cases r2; cases r3) (simp_all add: afterDiscovery_def)
qed

lemma afterDiscovery_unmarked:
  "deviceUrl (debugContext s) = [] \<Longrightarrow> unmarked (debugContext s)
     \<Longrightarrow> unmarked (debugContext (fst (afterDiscovery rt ev v s)))"
proof -
  assume en: "deviceUrl (debugContext s) = []" "unmarked (debugContext s)"
  obtain s2 r2 where rb: "recordBranch rt (correctTotal v) s = (s2, r2)" by force
  then have s2: "debugContext s2 = debugContext s"
    using recordBranch_frame [of rt "correctTotal v" s] by simp
  obtain s3 r3 where d: "dispatch rt ev (thought v) s2 = (s3, r3)" by force
  then have s3: "unmarked (debugContext s3)"
    using dispatch_unmarked [of s2 rt ev "thought v"] en s2 by simp
  show ?thesis
    using rb d s2 s3 en by (cases r2; cases r3) (simp_all add: afterDiscovery_def)
qed

lemma process_target:
  "deviceUrl (debugContext s) \<noteq> []
     \<Longrightarrow> target (debugContext (fst (processLegacyDeviceDebug rt ev input s))) = target (debugContext s)"
  by (simp add: process_unfold discoverTarget_set split: sum.splits)

lemma process_enabled:
  "defaultRulesEnabled (debugContext s)
     \<Longrightarrow> defaultRulesEnabled (debugContext (fst (processLegacyDeviceDebug rt ev input s)))"
proof (cases "validateThoughtData rt input")
  case (Inl t)
  assume "defaultRulesEnabled (debugContext s)"
  with Inl show ?thesis by (simp add: process_unfold)
next
  case (Inr v)
  assume en: "defaultRulesEnabled (debugContext s)"
  obtain c r where d: "discoverTarget rt (thought v) (debugContext s) = (c, r)" by force
  then have c: "defaultRulesEnabled c"
    using discoverTarget_frame(1) [of rt "thought v" "debugContext s"] en by simp
  show ?thesis
    using Inr d c by (cases r) (simp_all add: process_unfold afterDiscovery_enabled)
qed

lemma process_unmarked:
  assumes "deviceUrl (debugContext (fst (processLegacyDeviceDebug rt ev input s))) = []"
    and "unmarked (debugContext s)"
  shows "unmarked (debugContext (fst (processLegacyDeviceDebug rt ev input s)))"
proof (cases "validateThoughtData rt input")
  case (Inl t)
  with assms show ?thesis by (simp add: process_unfold)
next
  case (Inr v)
  obtain c r where d: "discoverTarget rt (thought v) (debugContext s) = (c, r)" by force
  then have c: "unmarked c"
    using discoverTarget_frame(2) [of rt "thought v" "debugContext s"] assms(2) by simp
  show ?thesis
  proof (cases r)
    case (Some t)
    with Inr d c show ?thesis by (simp add: process_unfold)
  next
    case None
    let ?s1 = "s\<lparr>debugContext := c, thoughtHistory := thoughtHistory s @ [correctTotal v]\<rparr>"
    have p: "processLegacyDeviceDebug rt ev input s = afterDiscovery rt ev v ?s1"
      using Inr d None by (simp add: process_unfold)
    have "target (debugContext (fst (afterDiscovery rt ev v ?s1))) = target (debugContext ?s1)"
      by (rule afterDiscovery_frame(1))
    with assms(1) p have "deviceUrl c = []" by (simp add: target_def)
    with c show ?thesis using p by (simp add: afterDiscovery_unmarked)
  qed
qed

lemma process_history:
  "\<exists>suffix. thoughtHistory (fst (processLegacyDeviceDebug rt ev input s)) = thoughtHistory s @ suffix"
proof (cases "validateThoughtData rt input")
  case (Inl t)
  then show ?thesis by (simp add: process_unfold)
next
  case (Inr v)
  obtain c r where d: "discoverTarget rt (thought v) (debugContext s) = (c, r)" by force
  show ?thesis using Inr d by (cases r) (simp_all add: process_unfold)
qed

subsection \<open>Sessions\<close>

lemma step_target:
  "deviceUrl (debugContext s) \<noteq> [] \<Longrightarrow> target (debugContext (step rt e s)) = target (debugContext s)"
  by (cases e) (simp_all add: process_target)

lemma run_target:
  "deviceUrl (debugContext s) \<noteq> [] \<Longrightarrow> target (debugContext (run rt es s)) = target (debugContext s)"
proof (induction es arbitrary: s)
  case Nil
  then show ?case by simp
next
  case (Cons e es)
  from Cons.prems have t: "target (debugContext (step rt e s)) = target (debugContext s)"
    by (rule step_target)
  with Cons.prems have "deviceUrl (debugContext (step rt e s)) \<noteq> []"
    by (simp add: target_def)
  then have "target (debugContext (run rt es (step rt e s))) = target (debugContext (step rt e s))"
    by (rule Cons.IH)
  with t show ?case by simp
qed

lemma step_enabled:
  "defaultRulesEnabled (debugContext s) \<Longrightarrow> defaultRulesEnabled (debugContext (step rt e s))"
  by (cases e) (simp_all add: process_enabled)

lemma run_enabled:
  "defaultRulesEnabled (debugContext s) \<Longrightarrow> defaultRulesEnabled (debugContext (run rt es s))"
  by (induction es arbitrary: s) (simp_all add: step_enabled)

lemma step_unmarked:
  "deviceUrl (debugContext (step rt e s)) = [] \<Longrightarrow> unmarked (debugContext s)
     \<Longrightarrow> unmarked (debugContext (step rt e s))"
  by (cases e) (auto simp add: process_unmarked unmarked_handleEvent split: if_splits)

lemma run_unmarked:
  "deviceUrl (debugContext (run rt es s)) = [] \<Longrightarrow> unmarked (debugContext s)
     \<Longrightarrow> unmarked (debugContext (run rt es s))"
proof (induction es arbitrary: s)
  case Nil
  then show ?case by simp
next
  case (Cons e es)
  have "deviceUrl (debugContext (step rt e s)) = []"
  proof (rule ccontr)
    assume "deviceUrl (debugContext (step rt e s)) \<noteq> []"
    then have "target (debugContext (run rt es (step rt e s))) = target (debugContext (step rt e s))"
      by (rule run_target)
    with Cons.prems(1) \<open>deviceUrl (debugContext (step rt e s)) \<noteq> []\<close> show False
      by (simp add: target_def)
  qed
  with Cons.prems(2) have "unmarked (debugContext (step rt e s))"
    by (simp add: step_unmarked)
  with Cons.IH [of "step rt e s"] Cons.prems(1) show ?case by simp
qed

lemma step_history: "\<exists>suffix. thoughtHistory (step rt e s) = thoughtHistory s @ suffix"
  by (cases e) (simp_all add: process_history)

lemma run_history: "\<exists>suffix. thoughtHistory (run rt es s) = thoughtHistory s @ suffix"
proof (induction es arbitrary: s)
  case Nil
  then show ?case by simp
next
  case (Cons e es)
  obtain a where a: "thoughtHistory (step rt e s) = thoughtHistory s @ a"
    using step_history by blast
  obtain b where "thoughtHistory (run rt es (step rt e s)) = thoughtHistory (step rt e s) @ b"
    using Cons.IH by blast
  with a show ?case by simp
qed

section \<open>The device-targeting classifier\<close>

text \<open>
  C10. The device-targeting classifier fails closed. \<^verbatim>\<open>isDeviceIPOrHostname\<close> is a total
  function to \<open>bool\<close> (a throw of the URL parser is the \<open>None\<close> the \<^verbatim>\<open>catch\<close> turns into
  \<^verbatim>\<open>false\<close>); it returns \<open>False\<close> whenever no target URL is set and whenever its argument does
  not parse. Hence a request observed while no target is set is stored with
  \<open>isDeviceIP = False\<close>, whatever its host; and in every state a session reaches from the
  initial state, as long as no target is set no stored request has \<open>isDeviceIP = True\<close>.
\<close>

theorem isDeviceIPOrHostname_fails_closed:
  "(deviceUrl ctx = [] \<longrightarrow> \<not> isDeviceIPOrHostname rt ctx u)
   \<and> (parseURL rt u = None \<longrightarrow> \<not> isDeviceIPOrHostname rt ctx u)
   \<and> (deviceUrl ctx = [] \<longrightarrow>
        \<not> isDeviceIP (last (networkRequests (onRequest rt u m h ctx))))
   \<and> (deviceUrl (debugContext (run rt evs initialServer)) = [] \<longrightarrow>
        list_all (\<lambda>r. \<not> isDeviceIP r) (networkRequests (debugContext (run rt evs initialServer))))"
proof -
  have "unmarked (debugContext initialServer)"
    by (simp add: unmarked_def initialServer_def initialContext_def)
  then have "deviceUrl (debugContext (run rt evs initialServer)) = [] \<Longrightarrow>
        unmarked (debugContext (run rt evs initialServer))"
    by (simp add: run_unmarked)
  then show ?thesis
    by (simp add: isDeviceIPOrHostname_def onRequest_def unmarked_def)
qed

theorem isDeviceIPOrHostname_fails_closed_witness:
  "deviceUrl initialContext = []
   \<and> parseURL exampleRuntime ''192.168.1.7/app.js'' = None
   \<and> hostname (the (parseURL exampleRuntime ''http://192.168.1.7/app.js'')) = ''192.168.1.7''
   \<and> \<not> isDeviceIPOrHostname exampleRuntime initialContext ''http://192.168.1.7/app.js''
   \<and> \<not> isDeviceIPOrHostname exampleRuntime
         (initialContext\<lparr>deviceUrl := ''http://192.168.1.100:8080''\<rparr>) ''192.168.1.7/app.js''
   \<and> \<not> isDeviceIP (last (networkRequests
         (onRequest exampleRuntime ''http://192.168.1.7/app.js'' ''GET'' [] initialContext)))
   \<and> deviceUrl (debugContext (run exampleRuntime
         [Submit (exampleStep ''start the session'' 1 3 True) exampleEnv,
          Page (PageRequest ''http://192.168.1.7/app.js'' ''GET'' [])] initialServer)) = []
   \<and> map isDeviceIP (networkRequests (debugContext (run exampleRuntime
         [Submit (exampleStep ''start the session'' 1 3 True) exampleEnv,
          Page (PageRequest ''http://192.168.1.7/app.js'' ''GET'' [])] initialServer))) = [False]"
proof -
  have a: "deviceUrl initialContext = []" by (simp add: initialContext_def)
  have b: "parseURL exampleRuntime ''192.168.1.7/app.js'' = None" by code_simp
  have c: "hostname (the (parseURL exampleRuntime ''http://192.168.1.7/app.js'')) = ''192.168.1.7''"
    by code_simp
  have d: "deviceUrl (debugContext (run exampleRuntime
         [Submit (exampleStep ''start the session'' 1 3 True) exampleEnv,
          Page (PageRequest ''http://192.168.1.7/app.js'' ''GET'' [])] initialServer)) = []"
    by code_simp
  have e: "length (networkRequests (debugContext (run exampleRuntime
         [Submit (exampleStep ''start the session'' 1 3 True) exampleEnv,
          Page (PageRequest ''http://192.168.1.7/app.js'' ''GET'' [])] initialServer))) = 1"
    by code_simp
  note t1 = isDeviceIPOrHostname_fails_closed
      [of initialContext exampleRuntime "''http://192.168.1.7/app.js''" "''GET''" "[]"
          "[Submit (exampleStep ''start the session'' 1 3 True) exampleEnv,
            Page (PageRequest ''http://192.168.1.7/app.js'' ''GET'' [])]"]
  note t2 = isDeviceIPOrHostname_fails_closed
      [of "initialContext\<lparr>deviceUrl := ''http://192.168.1.100:8080''\<rparr>" exampleRuntime
          "''192.168.1.7/app.js''" "''GET''" "[]" "[]"]
  from e obtain r where r: "networkRequests (debugContext (run exampleRuntime
         [Submit (exampleStep ''start the session'' 1 3 True) exampleEnv,
          Page (PageRequest ''http://192.168.1.7/app.js'' ''GET'' [])] initialServer)) = [r]"
    by (auto simp: length_Suc_conv)
  show ?thesis
    using a b c d r t1 t2 by simp
qed

section \<open>Target discovery\<close>

lemma validate_exampleStep:
  "t \<noteq> [] \<Longrightarrow> n \<noteq> 0 \<Longrightarrow> m \<noteq> 0
     \<Longrightarrow> validateThoughtData rt (exampleStep t n m b) = Inr (exampleThought t n m b)"
  by (simp add: validateThoughtData_def exampleStep_def exampleThought_def)

lemma urlTokenAt_nonempty: "urlTokenAt s = Some u \<Longrightarrow> u \<noteq> []"
  by (auto simp: urlTokenAt_def split: if_splits)

lemma urlMatch_nonempty: "urlMatch th = Some u \<Longrightarrow> u \<noteq> []"
  by (induction th) (auto simp: urlTokenAt_nonempty split: option.splits)

lemma discoverTarget_first:
  "deviceUrl c = [] \<Longrightarrow> urlMatch th = Some u
     \<Longrightarrow> deviceUrl (fst (discoverTarget rt th c)) = u"
  by (simp add: discoverTarget_def split: option.splits)

lemma discoverTarget_derived:
  "deviceUrl c = [] \<Longrightarrow> urlMatch th = Some u \<Longrightarrow> parseURL rt u = Some urlObj
     \<Longrightarrow> discoverTarget rt th c
         = (c\<lparr>deviceUrl := u, deviceIP := hostname urlObj, deviceHostname := hostname urlObj\<rparr>, None)"
  by (simp add: discoverTarget_def)

lemma process_discovers:
  assumes "validateThoughtData rt input = Inr v"
  shows "target (debugContext (fst (processLegacyDeviceDebug rt ev input s)))
           = target (fst (discoverTarget rt (thought v) (debugContext s)))"
proof -
  obtain c r where d: "discoverTarget rt (thought v) (debugContext s) = (c, r)" by force
  show ?thesis using assms d by (cases r) (simp_all add: process_unfold)
qed

lemma urlTokenAt_Some:
  assumes "urlTokenAt s = Some u"
  shows "\<exists>w b. s = u @ b \<and> (u = ''http://'' @ w \<or> u = ''https://'' @ w) \<and> w \<noteq> []
           \<and> (\<forall>c \<in> set w. \<not> isSpace c) \<and> (b = [] \<or> isSpace (hd b))"
proof -
  let ?P = "\<lambda>c. \<not> isSpace c"
  have split: "\<And>n. drop n s = takeWhile ?P (drop n s) @ dropWhile ?P (drop n s)" by simp
  have tail: "\<And>xs. dropWhile ?P xs = [] \<or> isSpace (hd (dropWhile ?P xs))"
    using hd_dropWhile [of ?P] by blast
  have inner: "\<And>xs. \<forall>c \<in> set (takeWhile ?P xs). \<not> isSpace c"
    by (auto dest: set_takeWhileD)
  show ?thesis
  proof (cases "prefix ''https://'' s \<and> takeWhile ?P (drop 8 s) \<noteq> []")
    case True
    then have u: "u = ''https://'' @ takeWhile ?P (drop 8 s)"
      using assms by (simp add: urlTokenAt_def)
    from True obtain r where r: "s = ''https://'' @ r" by (auto simp: prefix_def)
    then have "drop 8 s = r" by simp
    with r u have "s = u @ dropWhile ?P (drop 8 s)" by simp
    with u True tail inner show ?thesis by blast
  next
    case False
    then have c: "prefix ''http://'' s \<and> takeWhile ?P (drop 7 s) \<noteq> []"
      and u: "u = ''http://'' @ takeWhile ?P (drop 7 s)"
      using assms by (auto simp: urlTokenAt_def split: if_splits)
    from c obtain r where r: "s = ''http://'' @ r" by (auto simp: prefix_def)
    then have "drop 7 s = r" by simp
    with r u have "s = u @ dropWhile ?P (drop 7 s)" by simp
    with u c tail inner show ?thesis by blast
  qed
qed

lemma urlTokenAt_None_iff:
  "urlTokenAt s = None \<longleftrightarrow>
     \<not> (\<exists>c r. \<not> isSpace c \<and> (s = ''http://'' @ c # r \<or> s = ''https://'' @ c # r))"
proof
  assume n: "urlTokenAt s = None"
  show "\<not> (\<exists>c r. \<not> isSpace c \<and> (s = ''http://'' @ c # r \<or> s = ''https://'' @ c # r))"
  proof
    assume "\<exists>c r. \<not> isSpace c \<and> (s = ''http://'' @ c # r \<or> s = ''https://'' @ c # r)"
    then obtain c r where c: "\<not> isSpace c"
      and s: "s = ''http://'' @ c # r \<or> s = ''https://'' @ c # r" by blast
    from s c have "urlTokenAt s \<noteq> None"
      by (auto simp: urlTokenAt_def)
    with n show False by simp
  qed
next
  assume a: "\<not> (\<exists>c r. \<not> isSpace c \<and> (s = ''http://'' @ c # r \<or> s = ''https://'' @ c # r))"
  show "urlTokenAt s = None"
  proof (rule ccontr)
    assume "urlTokenAt s \<noteq> None"
    then obtain u where "urlTokenAt s = Some u" by auto
    then obtain w b where "s = u @ b" "u = ''http://'' @ w \<or> u = ''https://'' @ w" "w \<noteq> []"
        "\<forall>c \<in> set w. \<not> isSpace c"
      using urlTokenAt_Some by blast
    then obtain c w' where "w = c # w'" "\<not> isSpace c"
      by (cases w) auto
    with \<open>s = u @ b\<close> \<open>u = ''http://'' @ w \<or> u = ''https://'' @ w\<close>
    have "s = ''http://'' @ c # (w' @ b) \<or> s = ''https://'' @ c # (w' @ b)" by auto
    with a \<open>\<not> isSpace c\<close> show False by blast
  qed
qed

lemma urlMatch_Some:
  "urlMatch th = Some u \<Longrightarrow>
     \<exists>a b. th = a @ u @ b \<and> urlTokenAt (u @ b) = Some u
       \<and> (\<forall>a' s'. th = a' @ s' \<and> length a' < length a \<longrightarrow> urlTokenAt s' = None)"
proof (induction th)
  case Nil
  then show ?case by simp
next
  case (Cons c cs)
  show ?case
  proof (cases "urlTokenAt (c # cs)")
    case (Some m)
    with Cons.prems have m: "m = u" by simp
    from Some obtain b where "c # cs = m @ b" using urlTokenAt_Some by blast
    with Some m have "c # cs = [] @ u @ b \<and> urlTokenAt (u @ b) = Some u
        \<and> (\<forall>a' s'. c # cs = a' @ s' \<and> length a' < length ([]::string) \<longrightarrow> urlTokenAt s' = None)"
      by simp
    then show ?thesis by blast
  next
    case None
    with Cons.prems have "urlMatch cs = Some u" by simp
    then obtain a b where ab: "cs = a @ u @ b" "urlTokenAt (u @ b) = Some u"
        "\<forall>a' s'. cs = a' @ s' \<and> length a' < length a \<longrightarrow> urlTokenAt s' = None"
      using Cons.IH by blast
    have "\<forall>a' s'. c # cs = a' @ s' \<and> length a' < length (c # a) \<longrightarrow> urlTokenAt s' = None"
    proof (intro allI impI)
      fix a' s'
      assume h: "c # cs = a' @ s' \<and> length a' < length (c # a)"
      show "urlTokenAt s' = None"
      proof (cases a')
        case Nil
        with h None show ?thesis by simp
      next
        case (Cons x xs)
        with h have "cs = xs @ s'" "length xs < length a" by simp_all
        with ab(3) show ?thesis by blast
      qed
    qed
    with ab(1,2) have "c # cs = (c # a) @ u @ b \<and> urlTokenAt (u @ b) = Some u
        \<and> (\<forall>a' s'. c # cs = a' @ s' \<and> length a' < length (c # a) \<longrightarrow> urlTokenAt s' = None)"
      by simp
    then show ?thesis by blast
  qed
qed

lemma urlMatch_None_iff:
  "urlMatch th = None \<longleftrightarrow> (\<forall>a s. th = a @ s \<longrightarrow> urlTokenAt s = None)"
proof (induction th)
  case Nil
  then show ?case by (simp add: urlTokenAt_def)
next
  case (Cons c cs)
  show ?case
  proof (cases "urlTokenAt (c # cs)")
    case (Some m)
    then have "urlMatch (c # cs) \<noteq> None" by simp
    moreover have "\<not> (\<forall>a s. c # cs = a @ s \<longrightarrow> urlTokenAt s = None)"
      using Some by (metis append_Nil option.distinct(1))
    ultimately show ?thesis by blast
  next
    case None
    then have "urlMatch (c # cs) = urlMatch cs" by simp
    moreover have "(\<forall>a s. c # cs = a @ s \<longrightarrow> urlTokenAt s = None)
        \<longleftrightarrow> (\<forall>a s. cs = a @ s \<longrightarrow> urlTokenAt s = None)"
    proof
      assume l: "\<forall>a s. c # cs = a @ s \<longrightarrow> urlTokenAt s = None"
      show "\<forall>a s. cs = a @ s \<longrightarrow> urlTokenAt s = None"
      proof (intro allI impI)
        fix a s assume "cs = a @ s"
        then have "c # cs = (c # a) @ s" by simp
        with l show "urlTokenAt s = None" by blast
      qed
    next
      assume r: "\<forall>a s. cs = a @ s \<longrightarrow> urlTokenAt s = None"
      show "\<forall>a s. c # cs = a @ s \<longrightarrow> urlTokenAt s = None"
      proof (intro allI impI)
        fix a s assume h: "c # cs = a @ s"
        show "urlTokenAt s = None"
        proof (cases a)
          case Nil
          with h None show ?thesis by simp
        next
          case (Cons x xs)
          with h have "cs = xs @ s" by simp
          with r show ?thesis by blast
        qed
      qed
    qed
    ultimately show ?thesis using Cons.IH by simp
  qed
qed


lemma urlMatch_token:
  assumes "urlMatch th = Some u"
  shows "\<exists>a b w. th = a @ u @ b \<and> (u = ''http://'' @ w \<or> u = ''https://'' @ w) \<and> w \<noteq> []
           \<and> (\<forall>c \<in> set w. \<not> isSpace c) \<and> (b = [] \<or> isSpace (hd b))
           \<and> (\<forall>a' c r. length a' < length a \<and> \<not> isSpace c
                  \<longrightarrow> th \<noteq> a' @ ''http://'' @ c # r \<and> th \<noteq> a' @ ''https://'' @ c # r)"
proof -
  from assms obtain a b where ab: "th = a @ u @ b" "urlTokenAt (u @ b) = Some u"
      "\<forall>a' s'. th = a' @ s' \<and> length a' < length a \<longrightarrow> urlTokenAt s' = None"
    using urlMatch_Some by blast
  from ab(2) obtain w b' where w: "u @ b = u @ b'" "u = ''http://'' @ w \<or> u = ''https://'' @ w"
      "w \<noteq> []" "\<forall>c \<in> set w. \<not> isSpace c" "b' = [] \<or> isSpace (hd b')"
    using urlTokenAt_Some by blast
  then have b: "b = [] \<or> isSpace (hd b)" by simp
  have left: "\<forall>a' c r. length a' < length a \<and> \<not> isSpace c
      \<longrightarrow> th \<noteq> a' @ ''http://'' @ c # r \<and> th \<noteq> a' @ ''https://'' @ c # r"
  proof (intro allI impI conjI notI)
    fix a' :: string and c :: char and r :: string
    assume h: "length a' < length a \<and> \<not> isSpace c" and e: "th = a' @ ''http://'' @ c # r"
    from ab(3) h e have "urlTokenAt (''http://'' @ c # r) = None" by blast
    moreover from h have "urlTokenAt (''http://'' @ c # r) \<noteq> None"
      by (simp add: urlTokenAt_def)
    ultimately show False by simp
  next
    fix a' :: string and c :: char and r :: string
    assume h: "length a' < length a \<and> \<not> isSpace c" and e: "th = a' @ ''https://'' @ c # r"
    from ab(3) h e have "urlTokenAt (''https://'' @ c # r) = None" by blast
    moreover from h have "urlTokenAt (''https://'' @ c # r) \<noteq> None"
      by (simp add: urlTokenAt_def)
    ultimately show False by simp
  qed
  have "th = a @ u @ b \<and> (u = ''http://'' @ w \<or> u = ''https://'' @ w) \<and> w \<noteq> []
           \<and> (\<forall>c \<in> set w. \<not> isSpace c) \<and> (b = [] \<or> isSpace (hd b))
           \<and> (\<forall>a' c r. length a' < length a \<and> \<not> isSpace c
                  \<longrightarrow> th \<noteq> a' @ ''http://'' @ c # r \<and> th \<noteq> a' @ ''https://'' @ c # r)"
    using ab(1) w(2,3,4) b left by (intro conjI)
  then show ?thesis
    by (intro exI)
qed

lemma urlMatch_None:
  "urlMatch th = None \<longleftrightarrow>
     \<not> (\<exists>a c r. \<not> isSpace c \<and> (th = a @ ''http://'' @ c # r \<or> th = a @ ''https://'' @ c # r))"
  unfolding urlMatch_None_iff urlTokenAt_None_iff by blast

lemma discoverTarget_ok:
  "snd (discoverTarget rt th c) = None \<longleftrightarrow>
     (deviceUrl c \<noteq> [] \<or> (case urlMatch th of None \<Rightarrow> True | Some u \<Rightarrow> parseURL rt u \<noteq> None))"
  by (auto simp: discoverTarget_def split: option.splits)

text \<open>
  C2. The target URL is set by the first validated step whose text has a match of
  \<^verbatim>\<open>/https?:\/\/[^\s]+/\<close> and never changes afterwards. While no target is set, a validated
  step with a match \<open>u\<close> leaves \<open>deviceUrl = u\<close> (and, when \<open>u\<close> parses, the IP and the
  hostname derived from it), and a validated step with no match leaves the target unset.
  Once \<open>deviceUrl\<close> is set, no sequence of later submissions and page events, whatever URLs
  their texts contain, changes \<open>deviceUrl\<close>, \<open>deviceIP\<close> or \<open>deviceHostname\<close>.
  The match is the leftmost \<open>http(s)://\<close> token of the text: \<open>u\<close> occurs in the text, is
  \<open>http://\<close> or \<open>https://\<close> followed by one or more characters none of which is white space,
  ends at the end of the text or before a white-space character, and no such token starts
  further left; and a text has no match exactly when it nowhere has \<open>http://\<close> or
  \<open>https://\<close> followed by a character that is not white space.
\<close>

theorem target_set_once:
  "(validateThoughtData rt input = Inr v \<and> deviceUrl (debugContext s) = []
      \<and> urlMatch (thought v) = Some u
     \<longrightarrow> u \<noteq> [] \<and> deviceUrl (debugContext (fst (processLegacyDeviceDebug rt ev input s))) = u)
   \<and> (validateThoughtData rt input = Inr v \<and> deviceUrl (debugContext s) = []
      \<and> urlMatch (thought v) = Some u \<and> parseURL rt u = Some urlObj
     \<longrightarrow> deviceIP (debugContext (fst (processLegacyDeviceDebug rt ev input s))) = hostname urlObj
       \<and> deviceHostname (debugContext (fst (processLegacyDeviceDebug rt ev input s))) = hostname urlObj)
   \<and> (validateThoughtData rt input = Inr v \<and> urlMatch (thought v) = None
     \<longrightarrow> deviceUrl (debugContext (fst (processLegacyDeviceDebug rt ev input s)))
           = deviceUrl (debugContext s))
   \<and> (deviceUrl (debugContext s) \<noteq> []
     \<longrightarrow> deviceUrl (debugContext (run rt evs s)) = deviceUrl (debugContext s)
       \<and> deviceIP (debugContext (run rt evs s)) = deviceIP (debugContext s)
       \<and> deviceHostname (debugContext (run rt evs s)) = deviceHostname (debugContext s))
   \<and> (urlMatch (thought v) = Some u
     \<longrightarrow> (\<exists>a b w. thought v = a @ u @ b
           \<and> (u = ''http://'' @ w \<or> u = ''https://'' @ w) \<and> w \<noteq> []
           \<and> (\<forall>c \<in> set w. \<not> isSpace c) \<and> (b = [] \<or> isSpace (hd b))
           \<and> (\<forall>a' c r. length a' < length a \<and> \<not> isSpace c
                  \<longrightarrow> thought v \<noteq> a' @ ''http://'' @ c # r
                    \<and> thought v \<noteq> a' @ ''https://'' @ c # r)))
   \<and> (urlMatch (thought v) = None
     \<longleftrightarrow> \<not> (\<exists>a c r. \<not> isSpace c
            \<and> (thought v = a @ ''http://'' @ c # r \<or> thought v = a @ ''https://'' @ c # r)))"
proof (intro conjI impI)
  assume a: "validateThoughtData rt input = Inr v \<and> deviceUrl (debugContext s) = []
      \<and> urlMatch (thought v) = Some u"
  then show "u \<noteq> []" using urlMatch_nonempty by blast
  from a show "deviceUrl (debugContext (fst (processLegacyDeviceDebug rt ev input s))) = u"
    using process_discovers [of rt input v ev s]
      discoverTarget_first [of "debugContext s" "thought v" u rt]
    by (simp add: target_def)
next
  assume a: "validateThoughtData rt input = Inr v \<and> deviceUrl (debugContext s) = []
      \<and> urlMatch (thought v) = Some u \<and> parseURL rt u = Some urlObj"
  then have "target (debugContext (fst (processLegacyDeviceDebug rt ev input s)))
      = (u, hostname urlObj, hostname urlObj)"
    using process_discovers [of rt input v ev s]
      discoverTarget_derived [of "debugContext s" "thought v" u rt urlObj]
    by (simp add: target_def)
  then show "deviceIP (debugContext (fst (processLegacyDeviceDebug rt ev input s))) = hostname urlObj"
    and "deviceHostname (debugContext (fst (processLegacyDeviceDebug rt ev input s))) = hostname urlObj"
    by (simp_all add: target_def)
next
  assume "validateThoughtData rt input = Inr v \<and> urlMatch (thought v) = None"
  then show "deviceUrl (debugContext (fst (processLegacyDeviceDebug rt ev input s)))
           = deviceUrl (debugContext s)"
    using process_discovers [of rt input v ev s]
    by (simp add: discoverTarget_none target_def)
next
  assume "deviceUrl (debugContext s) \<noteq> []"
  then have "target (debugContext (run rt evs s)) = target (debugContext s)"
    by (rule run_target)
  then show "deviceUrl (debugContext (run rt evs s)) = deviceUrl (debugContext s)"
    and "deviceIP (debugContext (run rt evs s)) = deviceIP (debugContext s)"
    and "deviceHostname (debugContext (run rt evs s)) = deviceHostname (debugContext s)"
    by (simp_all add: target_def)
next
  assume "urlMatch (thought v) = Some u"
  then show "\<exists>a b w. thought v = a @ u @ b
           \<and> (u = ''http://'' @ w \<or> u = ''https://'' @ w) \<and> w \<noteq> []
           \<and> (\<forall>c \<in> set w. \<not> isSpace c) \<and> (b = [] \<or> isSpace (hd b))
           \<and> (\<forall>a' c r. length a' < length a \<and> \<not> isSpace c
                  \<longrightarrow> thought v \<noteq> a' @ ''http://'' @ c # r
                    \<and> thought v \<noteq> a' @ ''https://'' @ c # r)"
    by (rule urlMatch_token)
next
  show "urlMatch (thought v) = None
     \<longleftrightarrow> \<not> (\<exists>a c r. \<not> isSpace c
            \<and> (thought v = a @ ''http://'' @ c # r \<or> thought v = a @ ''https://'' @ c # r))"
    by (rule urlMatch_None)
qed

theorem target_set_once_witness:
  "validateThoughtData exampleRuntime
       (exampleStep ''start debugging http://192.168.1.100:8080'' 1 3 True)
     = Inr (exampleThought ''start debugging http://192.168.1.100:8080'' 1 3 True)
   \<and> deviceUrl (debugContext initialServer) = []
   \<and> urlMatch ''start debugging http://192.168.1.100:8080'' = Some ''http://192.168.1.100:8080''
   \<and> parseURL exampleRuntime ''http://192.168.1.100:8080''
        = Some \<lparr> hostname = ''192.168.1.100'', pathname = ''/'' \<rparr>
   \<and> deviceUrl (debugContext exampleSession) = ''http://192.168.1.100:8080''
   \<and> deviceIP (debugContext exampleSession) = ''192.168.1.100''
   \<and> deviceHostname (debugContext exampleSession) = ''192.168.1.100''
   \<and> validateThoughtData exampleRuntime (exampleStep ''check the console'' 1 3 True)
        = Inr (exampleThought ''check the console'' 1 3 True)
   \<and> urlMatch ''check the console'' = None
   \<and> deviceUrl (debugContext (fst (processLegacyDeviceDebug exampleRuntime exampleEnv
         (exampleStep ''check the console'' 1 3 True) initialServer))) = []
   \<and> urlMatch ''check the page load at http://10.0.0.5/login'' = Some ''http://10.0.0.5/login''
   \<and> deviceUrl (debugContext (run exampleRuntime
         [Submit (exampleStep ''check the page load at http://10.0.0.5/login'' 2 3 True) exampleEnv]
         exampleSession)) = ''http://192.168.1.100:8080''
   \<and> deviceIP (debugContext (run exampleRuntime
         [Submit (exampleStep ''check the page load at http://10.0.0.5/login'' 2 3 True) exampleEnv]
         exampleSession)) = ''192.168.1.100''
   \<and> deviceHostname (debugContext (run exampleRuntime
         [Submit (exampleStep ''check the page load at http://10.0.0.5/login'' 2 3 True) exampleEnv]
         exampleSession)) = ''192.168.1.100''
   \<and> (\<exists>a b w. ''start debugging http://192.168.1.100:8080'' = a @ ''http://192.168.1.100:8080'' @ b
         \<and> (''http://192.168.1.100:8080'' = ''http://'' @ w
              \<or> ''http://192.168.1.100:8080'' = ''https://'' @ w) \<and> w \<noteq> []
         \<and> (\<forall>c \<in> set w. \<not> isSpace c) \<and> (b = [] \<or> isSpace (hd b))
         \<and> (\<forall>a' c r. length a' < length a \<and> \<not> isSpace c
                \<longrightarrow> ''start debugging http://192.168.1.100:8080'' \<noteq> a' @ ''http://'' @ c # r
                  \<and> ''start debugging http://192.168.1.100:8080'' \<noteq> a' @ ''https://'' @ c # r))
   \<and> \<not> (\<exists>a c r. \<not> isSpace c
          \<and> (''check the console'' = a @ ''http://'' @ c # r
               \<or> ''check the console'' = a @ ''https://'' @ c # r))"
proof -
  have v: "validateThoughtData exampleRuntime
       (exampleStep ''start debugging http://192.168.1.100:8080'' 1 3 True)
     = Inr (exampleThought ''start debugging http://192.168.1.100:8080'' 1 3 True)"
    by (simp add: validate_exampleStep)
  have e: "deviceUrl (debugContext initialServer) = []"
    by (simp add: initialServer_def initialContext_def)
  have m: "urlMatch ''start debugging http://192.168.1.100:8080'' = Some ''http://192.168.1.100:8080''"
    by code_simp
  have p: "parseURL exampleRuntime ''http://192.168.1.100:8080''
        = Some \<lparr> hostname = ''192.168.1.100'', pathname = ''/'' \<rparr>"
    by code_simp
  have m2: "urlMatch ''check the page load at http://10.0.0.5/login'' = Some ''http://10.0.0.5/login''"
    by code_simp
  have th: "thought (exampleThought ''start debugging http://192.168.1.100:8080'' 1 3 True)
     = ''start debugging http://192.168.1.100:8080''"
    by (simp add: exampleThought_def)
  note t1 = target_set_once
      [of exampleRuntime "exampleStep ''start debugging http://192.168.1.100:8080'' 1 3 True"
          "exampleThought ''start debugging http://192.168.1.100:8080'' 1 3 True"
          initialServer "''http://192.168.1.100:8080''" exampleEnv
          "\<lparr> hostname = ''192.168.1.100'', pathname = ''/'' \<rparr>" "[]"]
  have d: "deviceUrl (debugContext exampleSession) = ''http://192.168.1.100:8080''"
      "deviceIP (debugContext exampleSession) = ''192.168.1.100''"
      "deviceHostname (debugContext exampleSession) = ''192.168.1.100''"
    using t1 [THEN conjunct1] t1 [THEN conjunct2, THEN conjunct1] v e m p th
    by (simp_all add: exampleSession_def)
  have tok: "\<exists>a b w. ''start debugging http://192.168.1.100:8080'' = a @ ''http://192.168.1.100:8080'' @ b
         \<and> (''http://192.168.1.100:8080'' = ''http://'' @ w
              \<or> ''http://192.168.1.100:8080'' = ''https://'' @ w) \<and> w \<noteq> []
         \<and> (\<forall>c \<in> set w. \<not> isSpace c) \<and> (b = [] \<or> isSpace (hd b))
         \<and> (\<forall>a' c r. length a' < length a \<and> \<not> isSpace c
                \<longrightarrow> ''start debugging http://192.168.1.100:8080'' \<noteq> a' @ ''http://'' @ c # r
                  \<and> ''start debugging http://192.168.1.100:8080'' \<noteq> a' @ ''https://'' @ c # r)"
    using t1 [THEN conjunct2, THEN conjunct2, THEN conjunct2, THEN conjunct2, THEN conjunct1,
              unfolded th] m
    by (rule mp)
  note t2 = target_set_once
      [of exampleRuntime Nullish undefined exampleSession undefined exampleEnv undefined
          "[Submit (exampleStep ''check the page load at http://10.0.0.5/login'' 2 3 True) exampleEnv]"]
  have v3: "validateThoughtData exampleRuntime (exampleStep ''check the console'' 1 3 True)
        = Inr (exampleThought ''check the console'' 1 3 True)"
    by (simp add: validate_exampleStep)
  have m3: "urlMatch ''check the console'' = None"
    by code_simp
  have th3: "thought (exampleThought ''check the console'' 1 3 True) = ''check the console''"
    by (simp add: exampleThought_def)
  note t3 = target_set_once
      [of exampleRuntime "exampleStep ''check the console'' 1 3 True"
          "exampleThought ''check the console'' 1 3 True" initialServer undefined exampleEnv
          undefined "[]"]
  have d3: "deviceUrl (debugContext (fst (processLegacyDeviceDebug exampleRuntime exampleEnv
         (exampleStep ''check the console'' 1 3 True) initialServer))) = []"
    using t3 [THEN conjunct2, THEN conjunct2, THEN conjunct1] v3 m3 th3 e by simp
  have nomatch: "\<not> (\<exists>a c r. \<not> isSpace c
          \<and> (''check the console'' = a @ ''http://'' @ c # r
               \<or> ''check the console'' = a @ ''https://'' @ c # r))"
    using t3 [THEN conjunct2, THEN conjunct2, THEN conjunct2, THEN conjunct2, THEN conjunct2,
              unfolded th3] m3
    by (rule iffD1)
  have d2: "deviceUrl (debugContext (run exampleRuntime
         [Submit (exampleStep ''check the page load at http://10.0.0.5/login'' 2 3 True) exampleEnv]
         exampleSession)) = ''http://192.168.1.100:8080''"
      "deviceIP (debugContext (run exampleRuntime
         [Submit (exampleStep ''check the page load at http://10.0.0.5/login'' 2 3 True) exampleEnv]
         exampleSession)) = ''192.168.1.100''"
      "deviceHostname (debugContext (run exampleRuntime
         [Submit (exampleStep ''check the page load at http://10.0.0.5/login'' 2 3 True) exampleEnv]
         exampleSession)) = ''192.168.1.100''"
    using t2 [THEN conjunct2, THEN conjunct2, THEN conjunct2, THEN conjunct1] d by simp_all
  show ?thesis
    by (intro conjI) (rule v e m p d v3 m3 d3 m2 d2 tok nomatch)+
qed

text \<open>
  The one validated step that is not ledgered: while no target is set, a step whose URL
  token does not parse. \<^verbatim>\<open>new URL\<close> throws after \<open>deviceUrl\<close> has been assigned and before
  the step is appended, so the step is answered with an error, the ledger is as before,
  and the token stays as the target.
\<close>

lemma discovery_throws:
  assumes "validateThoughtData rt input = Inr v" and "deviceUrl (debugContext s) = []"
    and "urlMatch (thought v) = Some u" and "parseURL rt u = None"
  shows "processLegacyDeviceDebug rt ev input s
           = (s\<lparr>debugContext := (debugContext s)\<lparr>deviceUrl := u\<rparr>\<rparr>,
              \<lparr> content = Failed (thrownMessage (invalidURL rt)), isError = True \<rparr>)"
  using assms by (simp add: processLegacyDeviceDebug_def discoverTarget_def errorResponse_def)

lemma discovery_throws_example:
  "processLegacyDeviceDebug exampleRuntime exampleEnv
       (exampleStep ''look at http://?'' 1 3 True) initialServer
     = (initialServer\<lparr>debugContext := initialContext\<lparr>deviceUrl := ''http://?''\<rparr>\<rparr>,
        \<lparr> content = Failed ''Invalid URL'', isError = True \<rparr>)"
proof -
  have "urlMatch ''look at http://?'' = Some ''http://?''" by code_simp
  moreover have "parseURL exampleRuntime ''http://?'' = None" by code_simp
  moreover have "debugContext initialServer = initialContext" "deviceUrl initialContext = []"
    by (simp_all add: initialServer_def initialContext_def)
  moreover have "thrownMessage (invalidURL exampleRuntime) = ''Invalid URL''"
    by (simp add: exampleRuntime_def)
  ultimately show ?thesis
    using discovery_throws [of exampleRuntime "exampleStep ''look at http://?'' 1 3 True"
        "exampleThought ''look at http://?'' 1 3 True" initialServer "''http://?''" exampleEnv]
    by (simp add: validate_exampleStep exampleThought_def)
qed

section \<open>The private-API classifier\<close>

lemma toLowerCase_append: "toLowerCase (a @ b) = toLowerCase a @ toLowerCase b"
  by (simp add: toLowerCase_def)

lemma marker_has_private:
  assumes "toLowerCase m = pre @ ''private'' @ post" and "str_includes u m"
  shows "str_includes (toLowerCase u) ''private''"
proof -
  from assms(2) obtain a b where "u = a @ m @ b"
    by (auto simp: str_includes_def sublist_def)
  then have "toLowerCase u = (toLowerCase a @ pre) @ ''private'' @ (post @ toLowerCase b)"
    using assms(1) by (simp add: toLowerCase_append)
  then show ?thesis
    unfolding str_includes_def sublist_def by blast
qed

lemma private_markers:
  "toLowerCase ''/private-api/'' = ''/'' @ ''private'' @ ''-api/''"
  "toLowerCase ''/api/private/'' = ''/api/'' @ ''private'' @ ''/''"
  by code_simp+

text \<open>
  C9 (amended). \<^verbatim>\<open>isPrivateAPICall\<close> tests the whole URL string, not its path: the
  classification is true exactly when the string contains \<^verbatim>\<open>/private-api/\<close>, \<^verbatim>\<open>/api/private/\<close>
  or \<^verbatim>\<open>/internal/\<close>, or its lower-cased form contains \<^verbatim>\<open>private\<close>, anywhere (host, path
  or query). The first two markers contain \<^verbatim>\<open>private\<close> themselves, so the classification is
  true exactly when the string contains \<^verbatim>\<open>/internal/\<close> or, in any letter case, \<^verbatim>\<open>private\<close>.
\<close>

theorem isPrivateAPICall_whole_string:
  "(isPrivateAPICall u \<longleftrightarrow>
     (\<exists>a b. u = a @ ''/private-api/'' @ b) \<or> (\<exists>a b. u = a @ ''/api/private/'' @ b)
     \<or> (\<exists>a b. u = a @ ''/internal/'' @ b) \<or> (\<exists>a b. toLowerCase u = a @ ''private'' @ b))
   \<and> (isPrivateAPICall u \<longleftrightarrow>
     (\<exists>a b. u = a @ ''/internal/'' @ b) \<or> (\<exists>a b. toLowerCase u = a @ ''private'' @ b))"
proof
  show first: "isPrivateAPICall u \<longleftrightarrow>
     (\<exists>a b. u = a @ ''/private-api/'' @ b) \<or> (\<exists>a b. u = a @ ''/api/private/'' @ b)
     \<or> (\<exists>a b. u = a @ ''/internal/'' @ b) \<or> (\<exists>a b. toLowerCase u = a @ ''private'' @ b)"
    unfolding isPrivateAPICall_def str_includes_def sublist_def by (rule refl)
  have "str_includes u ''/private-api/'' \<Longrightarrow> str_includes (toLowerCase u) ''private''"
    by (rule marker_has_private [OF private_markers(1)])
  moreover have "str_includes u ''/api/private/'' \<Longrightarrow> str_includes (toLowerCase u) ''private''"
    by (rule marker_has_private [OF private_markers(2)])
  ultimately have "isPrivateAPICall u \<longleftrightarrow>
      str_includes u ''/internal/'' \<or> str_includes (toLowerCase u) ''private''"
    unfolding isPrivateAPICall_def by blast
  then show "isPrivateAPICall u \<longleftrightarrow>
     (\<exists>a b. u = a @ ''/internal/'' @ b) \<or> (\<exists>a b. toLowerCase u = a @ ''private'' @ b)"
    unfolding str_includes_def sublist_def .
qed

text \<open>
  The claim as stated fails: the URL \<^verbatim>\<open>http://private.example/status\<close> has the path
  \<^verbatim>\<open>/status\<close>, which contains none of the markers, and is classified as a private API call.
\<close>

theorem isPrivateAPICall_path_counterexample:
  "map_option pathname (parseURL exampleRuntime ''http://private.example/status'') = Some ''/status''
   \<and> \<not> isPrivateAPICall ''/status''
   \<and> isPrivateAPICall ''http://private.example/status''"
  by code_simp

section \<open>The baseline rules\<close>

lemma baselineRules_priorities: "map priority baselineRules = [1, 2, 3, 4]"
  by (simp add: baselineRules_def rule_def)

lemma step1_first:
  "\<not> defaultRulesEnabled c
     \<Longrightarrow> rewriteRules (step1_EnableDefaultRules c) = rewriteRules c @ baselineRules"
  by (simp add: step1_EnableDefaultRules_def pushIssues_def pushRules_def)

lemma step1_noop: "defaultRulesEnabled c \<Longrightarrow> step1_EnableDefaultRules c = c"
  by (simp add: step1_EnableDefaultRules_def)

text \<open>
  C4. The first invocation of \<^verbatim>\<open>step1_EnableDefaultRules\<close> (the flag
  \<open>defaultRulesEnabled\<close> is not set) appends exactly the four baseline rules, with
  priorities 1, 2, 3, 4, to the catalog and sets the flag. An invocation with the flag set
  changes nothing, so the phase is idempotent; and since nothing ever clears the flag,
  every invocation that comes after the first one in a session, whatever steps and page
  events lie between, is a no-op.
\<close>

theorem step1_idempotent:
  "(\<not> defaultRulesEnabled c \<longrightarrow>
       rewriteRules (step1_EnableDefaultRules c) = rewriteRules c @ baselineRules
       \<and> defaultRulesEnabled (step1_EnableDefaultRules c))
   \<and> length baselineRules = 4 \<and> map priority baselineRules = [1, 2, 3, 4]
   \<and> (defaultRulesEnabled c \<longrightarrow> step1_EnableDefaultRules c = c)
   \<and> step1_EnableDefaultRules (step1_EnableDefaultRules c) = step1_EnableDefaultRules c
   \<and> (defaultRulesEnabled (debugContext s) \<longrightarrow>
        step1_EnableDefaultRules (debugContext (run rt evs s)) = debugContext (run rt evs s))"
proof -
  have "defaultRulesEnabled (debugContext s) \<Longrightarrow>
        step1_EnableDefaultRules (debugContext (run rt evs s)) = debugContext (run rt evs s)"
    by (simp add: run_enabled step1_noop)
  moreover have "length baselineRules = 4"
    by (simp add: baselineRules_def)
  ultimately show ?thesis
    by (simp add: step1_first step1_noop baselineRules_priorities)
qed

theorem step1_idempotent_witness:
  "\<not> defaultRulesEnabled initialContext
   \<and> rewriteRules (step1_EnableDefaultRules initialContext) = baselineRules
   \<and> defaultRulesEnabled (debugContext exampleSession)
   \<and> rewriteRules (debugContext exampleSession) = baselineRules
   \<and> step1_EnableDefaultRules (debugContext exampleSession) = debugContext exampleSession
   \<and> rewriteRules (debugContext (run exampleRuntime
        [Submit (exampleStep ''initialize again'' 2 3 True) exampleEnv] exampleSession))
       = baselineRules
   \<and> step1_EnableDefaultRules (debugContext (run exampleRuntime
        [Submit (exampleStep ''initialize again'' 2 3 True) exampleEnv] exampleSession))
       = debugContext (run exampleRuntime
        [Submit (exampleStep ''initialize again'' 2 3 True) exampleEnv] exampleSession)"
proof -
  have a: "\<not> defaultRulesEnabled initialContext" "rewriteRules initialContext = []"
    by (simp_all add: initialContext_def)
  have b: "defaultRulesEnabled (debugContext exampleSession)" by code_simp
  have c: "rewriteRules (debugContext exampleSession) = baselineRules" by code_simp
  have d: "rewriteRules (debugContext (run exampleRuntime
        [Submit (exampleStep ''initialize again'' 2 3 True) exampleEnv] exampleSession))
       = baselineRules" by code_simp
  note t1 = step1_idempotent [of initialContext initialServer exampleRuntime "[]"]
  note t2 = step1_idempotent [of "debugContext exampleSession" exampleSession exampleRuntime
      "[Submit (exampleStep ''initialize again'' 2 3 True) exampleEnv]"]
  show ?thesis using a b c d t1 t2 by simp
qed

section \<open>The stored total\<close>

lemma correctTotal_fields [simp]:
  "thoughtNumber (correctTotal v) = thoughtNumber v"
  "totalThoughts (correctTotal v) = max (thoughtNumber v) (totalThoughts v)"
  "nextThoughtNeeded (correctTotal v) = nextThoughtNeeded v"
  by (simp_all add: correctTotal_def max_def)

lemma respond_total:
  "content (snd (respond v s)) = Summary d \<Longrightarrow> rsTotalThoughts d = totalThoughts v"
  by (auto simp: respond_def summarize_def Let_def split: if_splits prod.splits)

lemma afterDiscovery_total:
  "content (snd (afterDiscovery rt ev v s)) = Summary d
     \<Longrightarrow> rsTotalThoughts d = max (thoughtNumber v) (totalThoughts v)"
proof -
  assume a: "content (snd (afterDiscovery rt ev v s)) = Summary d"
  obtain s2 r2 where rb: "recordBranch rt (correctTotal v) s = (s2, r2)" by force
  obtain s3 r3 where ds: "dispatch rt ev (thought v) s2 = (s3, r3)" by force
  from a rb ds have "content (snd (respond (correctTotal v) s3)) = Summary d"
    by (cases r2; cases r3) (simp_all add: afterDiscovery_def errorResponse_def)
  then show ?thesis using respond_total [of "correctTotal v" s3 d] by simp
qed

lemma process_ledger:
  assumes "validateThoughtData rt input = Inr v"
  shows "thoughtHistory (fst (processLegacyDeviceDebug rt ev input s))
           = (if snd (discoverTarget rt (thought v) (debugContext s)) = None
              then thoughtHistory s @ [correctTotal v] else thoughtHistory s)"
proof -
  obtain c r where d: "discoverTarget rt (thought v) (debugContext s) = (c, r)" by force
  show ?thesis using assms d by (cases r) (simp_all add: process_unfold)
qed

lemma process_total:
  assumes "validateThoughtData rt input = Inr v"
    and "content (snd (processLegacyDeviceDebug rt ev input s)) = Summary d"
  shows "rsTotalThoughts d = max (thoughtNumber v) (totalThoughts v)"
proof -
  obtain c r where ds: "discoverTarget rt (thought v) (debugContext s) = (c, r)" by force
  show ?thesis
  proof (cases r)
    case None
    with assms ds show ?thesis by (simp add: process_unfold afterDiscovery_total)
  next
    case (Some t)
    with assms ds show ?thesis by (simp add: process_unfold errorResponse_def)
  qed
qed

lemma run_ledger_nth:
  "i < length (thoughtHistory s) \<Longrightarrow> thoughtHistory (run rt evs s) ! i = thoughtHistory s ! i"
  using run_history [of rt evs s] by (auto simp: nth_append)

text \<open>
  C5 (amended). The correction of the total is per step; the server keeps no running
  total. For a validated step whose target discovery does not throw (a target is already
  set, or the text has no URL token, or the token parses), the submission appends exactly
  one ledger entry: the step with its total replaced by the larger of the step number and
  the submitted total, which is the step number when that exceeds the submitted total.
  Whether or not discovery throws, every entry a validated step appends and the summary
  it returns carry that same total, which is never less than the submitted one. No later
  submission or page event changes an entry already in the ledger. A later step with a
  smaller total is nevertheless stored and answered with its own, smaller, total.
\<close>

theorem totalThoughts_raised:
  "(validateThoughtData rt input = Inr v \<and> thoughtNumber v > totalThoughts v
      \<and> (deviceUrl (debugContext s) \<noteq> []
          \<or> (case urlMatch (thought v) of None \<Rightarrow> True | Some u \<Rightarrow> parseURL rt u \<noteq> None))
     \<longrightarrow> thoughtHistory (fst (processLegacyDeviceDebug rt ev input s))
           = thoughtHistory s @ [v\<lparr>totalThoughts := thoughtNumber v\<rparr>])
   \<and> (validateThoughtData rt input = Inr v \<and> thoughtNumber v > totalThoughts v \<longrightarrow>
      (\<forall>x \<in> set (drop (length (thoughtHistory s)) (thoughtHistory (fst (processLegacyDeviceDebug rt ev input s)))).
         totalThoughts x = thoughtNumber v)
      \<and> (\<forall>d. content (snd (processLegacyDeviceDebug rt ev input s)) = Summary d \<longrightarrow> rsTotalThoughts d = thoughtNumber v))
   \<and> (validateThoughtData rt input = Inr v
      \<and> (deviceUrl (debugContext s) \<noteq> []
          \<or> (case urlMatch (thought v) of None \<Rightarrow> True | Some u \<Rightarrow> parseURL rt u \<noteq> None))
     \<longrightarrow> thoughtHistory (fst (processLegacyDeviceDebug rt ev input s))
           = thoughtHistory s @ [v\<lparr>totalThoughts := max (thoughtNumber v) (totalThoughts v)\<rparr>])
   \<and> (validateThoughtData rt input = Inr v \<longrightarrow>
      (\<forall>x \<in> set (drop (length (thoughtHistory s)) (thoughtHistory (fst (processLegacyDeviceDebug rt ev input s)))).
         totalThoughts x = max (thoughtNumber v) (totalThoughts v)
         \<and> totalThoughts x \<ge> totalThoughts v)
      \<and> (\<forall>d. content (snd (processLegacyDeviceDebug rt ev input s)) = Summary d
             \<longrightarrow> rsTotalThoughts d = max (thoughtNumber v) (totalThoughts v)))
   \<and> (i < length (thoughtHistory s) \<longrightarrow>
        thoughtHistory (run rt evs s) ! i = thoughtHistory s ! i)"
proof (intro conjI impI allI ballI)
  assume a: "validateThoughtData rt input = Inr v \<and> thoughtNumber v > totalThoughts v
      \<and> (deviceUrl (debugContext s) \<noteq> []
          \<or> (case urlMatch (thought v) of None \<Rightarrow> True | Some u \<Rightarrow> parseURL rt u \<noteq> None))"
  then have "snd (discoverTarget rt (thought v) (debugContext s)) = None"
    by (simp only: discoverTarget_ok)
  with a show "thoughtHistory (fst (processLegacyDeviceDebug rt ev input s))
           = thoughtHistory s @ [v\<lparr>totalThoughts := thoughtNumber v\<rparr>]"
    using process_ledger [of rt input v ev s] by (simp add: correctTotal_def)
next
  fix x
  assume a: "validateThoughtData rt input = Inr v \<and> thoughtNumber v > totalThoughts v"
    and x: "x \<in> set (drop (length (thoughtHistory s)) (thoughtHistory (fst (processLegacyDeviceDebug rt ev input s))))"
  from a x show "totalThoughts x = thoughtNumber v"
    using process_ledger [of rt input v ev s] by (auto split: if_splits)
next
  fix d
  assume a: "validateThoughtData rt input = Inr v \<and> thoughtNumber v > totalThoughts v"
    and b: "content (snd (processLegacyDeviceDebug rt ev input s)) = Summary d"
  then show "rsTotalThoughts d = thoughtNumber v"
    using process_total [of rt input v ev s d] by simp
next
  assume a: "validateThoughtData rt input = Inr v
      \<and> (deviceUrl (debugContext s) \<noteq> []
          \<or> (case urlMatch (thought v) of None \<Rightarrow> True | Some u \<Rightarrow> parseURL rt u \<noteq> None))"
  then have "snd (discoverTarget rt (thought v) (debugContext s)) = None"
    by (simp only: discoverTarget_ok)
  with a show "thoughtHistory (fst (processLegacyDeviceDebug rt ev input s))
           = thoughtHistory s @ [v\<lparr>totalThoughts := max (thoughtNumber v) (totalThoughts v)\<rparr>]"
    using process_ledger [of rt input v ev s] by (simp add: correctTotal_def max_def)
next
  fix x
  assume a: "validateThoughtData rt input = Inr v"
    and x: "x \<in> set (drop (length (thoughtHistory s)) (thoughtHistory (fst (processLegacyDeviceDebug rt ev input s))))"
  from a x show "totalThoughts x = max (thoughtNumber v) (totalThoughts v)"
    and "totalThoughts x \<ge> totalThoughts v"
    using process_ledger [of rt input v ev s] by (auto split: if_splits)
next
  fix d
  assume a: "validateThoughtData rt input = Inr v"
    and b: "content (snd (processLegacyDeviceDebug rt ev input s)) = Summary d"
  then show "rsTotalThoughts d = max (thoughtNumber v) (totalThoughts v)"
    using process_total [of rt input v ev s d] by simp
next
  assume "i < length (thoughtHistory s)"
  then show "thoughtHistory (run rt evs s) ! i = thoughtHistory s ! i"
    by (rule run_ledger_nth)
qed

theorem totalThoughts_raised_witness:
  "validateThoughtData exampleRuntime (exampleStep ''check the console'' 5 3 True)
     = Inr (exampleThought ''check the console'' 5 3 True)
   \<and> thoughtNumber (exampleThought ''check the console'' 5 3 True)
       > totalThoughts (exampleThought ''check the console'' 5 3 True)
   \<and> deviceUrl (debugContext exampleSession) \<noteq> []
   \<and> thoughtHistory (fst exampleRaised)
       = thoughtHistory exampleSession @ [exampleThought ''check the console'' 5 5 True]
   \<and> length (thoughtHistory exampleSession) = 1
   \<and> map totalThoughts (thoughtHistory (fst exampleRaised)) = [3, 5]
   \<and> (case content (snd exampleRaised) of Summary d \<Rightarrow> rsTotalThoughts d = 5 | Failed e \<Rightarrow> False)
   \<and> thoughtHistory (run exampleRuntime
        [Submit (exampleStep ''check the redirects'' 2 3 True) exampleEnv] (fst exampleRaised)) ! 1
       = exampleThought ''check the console'' 5 5 True"
proof -
  have v: "validateThoughtData exampleRuntime (exampleStep ''check the console'' 5 3 True)
     = Inr (exampleThought ''check the console'' 5 3 True)"
    by (simp add: validate_exampleStep)
  have f: "thoughtNumber (exampleThought ''check the console'' 5 3 True) = 5"
      "totalThoughts (exampleThought ''check the console'' 5 3 True) = 3"
      "thought (exampleThought ''check the console'' 5 3 True) = ''check the console''"
      "(exampleThought ''check the console'' 5 3 True)\<lparr>totalThoughts := 5\<rparr>
         = exampleThought ''check the console'' 5 5 True"
    by (simp_all add: exampleThought_def)
  have dd: "deviceUrl (debugContext exampleSession) \<noteq> []" by code_simp
  have h1: "map totalThoughts (thoughtHistory exampleSession) = [3]" by code_simp
  then have l1: "length (thoughtHistory exampleSession) = 1"
    by (metis length_map list.size(3) list.size(4) One_nat_def add.left_neutral)
  have c: "case content (snd exampleRaised) of Summary d \<Rightarrow> True | Failed e \<Rightarrow> False"
    by code_simp
  note t = totalThoughts_raised
      [of exampleRuntime "exampleStep ''check the console'' 5 3 True"
          "exampleThought ''check the console'' 5 3 True" exampleSession exampleEnv 1
          "[Submit (exampleStep ''check the redirects'' 2 3 True) exampleEnv]"]
  note t' = totalThoughts_raised
      [of exampleRuntime "exampleStep ''check the console'' 5 3 True"
          "exampleThought ''check the console'' 5 3 True" "fst exampleRaised" exampleEnv 1
          "[Submit (exampleStep ''check the redirects'' 2 3 True) exampleEnv]"]
  have e: "thoughtHistory (fst exampleRaised)
       = thoughtHistory exampleSession @ [exampleThought ''check the console'' 5 5 True]"
    using t [THEN conjunct1] v f dd by (simp add: exampleRaised_def)
  have c': "case content (snd exampleRaised) of Summary d \<Rightarrow> rsTotalThoughts d = 5 | Failed e \<Rightarrow> False"
    using t [THEN conjunct2, THEN conjunct1] v f c
    by (simp add: exampleRaised_def split: payload.splits)
  have n: "thoughtHistory (run exampleRuntime
        [Submit (exampleStep ''check the redirects'' 2 3 True) exampleEnv] (fst exampleRaised)) ! 1
       = exampleThought ''check the console'' 5 5 True"
    using t' [THEN conjunct2, THEN conjunct2, THEN conjunct2, THEN conjunct2] e l1
    by (simp add: nth_append)
  have g: "totalThoughts (exampleThought ''check the console'' 5 5 True) = 5"
    by (simp add: exampleThought_def)
  show ?thesis
    using v f dd e l1 h1 c' n g by simp
qed

text \<open>
  C5, as worded, fails where it says that the total is never lowered by a later submission
  with a smaller total. In the example session the step 5 of 3 is stored and answered with
  total 5; the valid step 2 of 3 submitted next is stored and answered with total 3.
\<close>

theorem totalThoughts_lowered_counterexample:
  "map totalThoughts (thoughtHistory (fst exampleRaised)) = [3, 5]
   \<and> (case content (snd exampleRaised) of Summary d \<Rightarrow> rsTotalThoughts d = 5 | Failed e \<Rightarrow> False)
   \<and> validateThoughtData exampleRuntime (exampleStep ''check the redirects'' 2 3 True)
       = Inr (exampleThought ''check the redirects'' 2 3 True)
   \<and> map totalThoughts (thoughtHistory (fst (processLegacyDeviceDebug exampleRuntime exampleEnv
         (exampleStep ''check the redirects'' 2 3 True) (fst exampleRaised)))) = [3, 5, 3]
   \<and> (case content (snd (processLegacyDeviceDebug exampleRuntime exampleEnv
         (exampleStep ''check the redirects'' 2 3 True) (fst exampleRaised)))
       of Summary d \<Rightarrow> rsTotalThoughts d = 3 | Failed e \<Rightarrow> False)"
proof -
  have a: "map totalThoughts (thoughtHistory (fst exampleRaised)) = [3, 5]" by code_simp
  have b: "case content (snd exampleRaised) of Summary d \<Rightarrow> rsTotalThoughts d = 5
      | Failed e \<Rightarrow> False"
    by code_simp
  have c: "validateThoughtData exampleRuntime (exampleStep ''check the redirects'' 2 3 True)
       = Inr (exampleThought ''check the redirects'' 2 3 True)"
    by (simp add: validate_exampleStep)
  have d: "map totalThoughts (thoughtHistory (fst (processLegacyDeviceDebug exampleRuntime exampleEnv
         (exampleStep ''check the redirects'' 2 3 True) (fst exampleRaised)))) = [3, 5, 3]"
    by code_simp
  have e: "case content (snd (processLegacyDeviceDebug exampleRuntime exampleEnv
         (exampleStep ''check the redirects'' 2 3 True) (fst exampleRaised)))
       of Summary d \<Rightarrow> rsTotalThoughts d = 3 | Failed e \<Rightarrow> False"
    by code_simp
  show ?thesis
    by (intro conjI) (rule a b c d e)+
qed

section \<open>Rejection of malformed steps\<close>

text \<open>
  C1 (amended). Validation rejects a step exactly when the description is not a non-empty
  string, the step number or the total is not a number other than 0 and \<^verbatim>\<open>NaN\<close>, or
  ``more needed'' is not a boolean (or the arguments are \<^verbatim>\<open>null\<close> or \<^verbatim>\<open>undefined\<close>). Every
  such rejection is returned as an error payload with \<^verbatim>\<open>isError\<close> set, and leaves the whole
  server state (ledger, branches, browser and page, diagnostic context) as it was.
\<close>

theorem validation_rejects:
  "(isl (validateThoughtData rt input) \<longleftrightarrow>
      \<not> (case input of
            Nullish \<Rightarrow> False
          | Arguments d \<Rightarrow>
              (case rawThought d of JStr t \<Rightarrow> t \<noteq> [] | _ \<Rightarrow> False)
              \<and> (case rawThoughtNumber d of JNum n \<Rightarrow> n \<noteq> 0 | _ \<Rightarrow> False)
              \<and> (case rawTotalThoughts d of JNum m \<Rightarrow> m \<noteq> 0 | _ \<Rightarrow> False)
              \<and> (case rawNextThoughtNeeded d of JBool b \<Rightarrow> True | _ \<Rightarrow> False)))
   \<and> (validateThoughtData rt input = Inl t \<longrightarrow>
        processLegacyDeviceDebug rt ev input s
          = (s, \<lparr> content = Failed (thrownMessage t), isError = True \<rparr>))"
proof (intro conjI impI)
  show "isl (validateThoughtData rt input) \<longleftrightarrow>
      \<not> (case input of
            Nullish \<Rightarrow> False
          | Arguments d \<Rightarrow>
              (case rawThought d of JStr t \<Rightarrow> t \<noteq> [] | _ \<Rightarrow> False)
              \<and> (case rawThoughtNumber d of JNum n \<Rightarrow> n \<noteq> 0 | _ \<Rightarrow> False)
              \<and> (case rawTotalThoughts d of JNum m \<Rightarrow> m \<noteq> 0 | _ \<Rightarrow> False)
              \<and> (case rawNextThoughtNeeded d of JBool b \<Rightarrow> True | _ \<Rightarrow> False))"
  proof (cases input)
    case Nullish
    then show ?thesis by (simp add: validateThoughtData_def)
  next
    case (Arguments d)
    then show ?thesis
      by (cases "rawThought d"; cases "rawThoughtNumber d"; cases "rawTotalThoughts d";
          cases "rawNextThoughtNeeded d")
         (simp_all add: validateThoughtData_def)
  qed
next
  assume "validateThoughtData rt input = Inl t"
  then show "processLegacyDeviceDebug rt ev input s
          = (s, \<lparr> content = Failed (thrownMessage t), isError = True \<rparr>)"
    by (simp add: processLegacyDeviceDebug_def errorResponse_def)
qed

theorem validation_rejects_witness:
  "validateThoughtData exampleRuntime exampleMalformed
     = Inl (newError ''Invalid thought: must be a string'')
   \<and> isl (validateThoughtData exampleRuntime exampleMalformed)
   \<and> processLegacyDeviceDebug exampleRuntime exampleEnv exampleMalformed exampleSession
       = (exampleSession,
          \<lparr> content = Failed ''Invalid thought: must be a string'', isError = True \<rparr>)
   \<and> \<not> isl (validateThoughtData exampleRuntime (exampleStep ''check the console'' 5 3 True))"
proof -
  have a: "validateThoughtData exampleRuntime exampleMalformed
     = Inl (newError ''Invalid thought: must be a string'')"
    by (simp add: validateThoughtData_def exampleMalformed_def)
  have b: "thrownMessage (newError ''Invalid thought: must be a string'')
     = ''Invalid thought: must be a string''"
    by (simp add: newError_def)
  note t1 = validation_rejects
      [of exampleRuntime exampleMalformed "newError ''Invalid thought: must be a string''"
          exampleEnv exampleSession]
  note t2 = validation_rejects
      [of exampleRuntime "exampleStep ''check the console'' 5 3 True" undefined exampleEnv
          exampleSession, THEN conjunct1]
  have c: "\<not> isl (validateThoughtData exampleRuntime (exampleStep ''check the console'' 5 3 True))"
    using t2 by (simp add: exampleStep_def)
  show ?thesis using a b c t1 by simp
qed

text \<open>
  The claim as stated fails: a step whose number is 0 has a description that is a string,
  a step number and a total that are numbers and a boolean ``more needed'', and it is
  rejected.
\<close>

theorem validation_rejects_zero_counterexample:
  "typeof (JStr ''check the page load'') = TString
   \<and> typeof (JNum 0) = TNumber \<and> typeof (JNum 3) = TNumber \<and> typeof (JBool True) = TBoolean
   \<and> processLegacyDeviceDebug exampleRuntime exampleEnv
        (exampleStep ''check the page load'' 0 3 True) initialServer
       = (initialServer,
          \<lparr> content = Failed ''Invalid thoughtNumber: must be a number'', isError = True \<rparr>)"
  by (simp add: processLegacyDeviceDebug_def validateThoughtData_def exampleStep_def
        errorResponse_def newError_def)

section \<open>Phase dispatch\<close>







section \<open>The report\<close>

lemma sort_key_resort:
  "sort_key f (sort_key f xs @ ys) = sort_key f (xs @ ys)"
proof (rule properties_for_sort_key)
  show "mset (sort_key f (xs @ ys)) = mset (sort_key f xs @ ys)" by simp
  show "sorted (map f (sort_key f (xs @ ys)))" by simp
  fix k
  have "filter (\<lambda>x. f k = f x) (sort_key f (xs @ ys)) = filter (\<lambda>x. f x = f k) (sort_key f (xs @ ys))"
    by (rule filter_cong) auto
  also have "\<dots> = filter (\<lambda>x. f x = f k) (xs @ ys)" by (rule sort_key_stable)
  also have "\<dots> = filter (\<lambda>x. f x = f k) (sort_key f xs) @ filter (\<lambda>x. f x = f k) ys"
    by (simp add: sort_key_stable)
  also have "\<dots> = filter (\<lambda>x. f k = f x) (sort_key f xs @ ys)"
    by (simp add: eq_commute [of "f k"])
  finally show "filter (\<lambda>x. f k = f x) (sort_key f (xs @ ys)) = filter (\<lambda>x. f k = f x) (sort_key f xs @ ys)" .
qed

lemma sorted_filter_key: "sorted (map f xs) \<Longrightarrow> sorted (map f (filter P xs))"
  by (induction xs) auto

lemma partition_by_type:
  "mset (filter (\<lambda>r. rtype r = default_type) xs) + mset (filter (\<lambda>r. rtype r = header) xs)
     + mset (filter (\<lambda>r. rtype r = body) xs) = mset xs"
proof (induction xs)
  case Nil
  then show ?case by simp
next
  case (Cons r xs)
  then show ?case by (cases "rtype r") simp_all
qed

lemma report_catalog:
  "rewriteRules (debugContext (fst (generateFinalReport s)))
     = sort_key priority (rewriteRules (debugContext s))"
  by (simp add: generateFinalReport_def Let_def)

lemma report_partitions:
  "defaultRules (snd (generateFinalReport s))
     = filter (\<lambda>r. rtype r = default_type) (sort_key priority (rewriteRules (debugContext s)))"
  "headerRewrites (snd (generateFinalReport s))
     = filter (\<lambda>r. rtype r = header) (sort_key priority (rewriteRules (debugContext s)))"
  "bodyRewrites (snd (generateFinalReport s))
     = filter (\<lambda>r. rtype r = body) (sort_key priority (rewriteRules (debugContext s)))"
  "totalRules (snd (generateFinalReport s)) = length (rewriteRules (debugContext s))"
  "repSummaryTotalRules (snd (generateFinalReport s)) = length (rewriteRules (debugContext s))"
  by (simp_all add: generateFinalReport_def Let_def)

lemma stable_partition:
  "filter (\<lambda>r. priority r = p) (filter P (sort_key priority xs))
     = filter (\<lambda>r. priority r = p) (filter P xs)"
proof -
  have "filter (\<lambda>r. priority r = p) (filter P (sort_key priority xs))
      = filter P (filter (\<lambda>r. priority r = p) (sort_key priority xs))"
    by (simp add: conj_commute)
  also have "\<dots> = filter P (filter (\<lambda>r. priority r = p) xs)"
    by (simp only: sort_key_stable)
  also have "\<dots> = filter (\<lambda>r. priority r = p) (filter P xs)"
    by (simp add: conj_commute)
  finally show ?thesis .
qed

lemma report_after_report:
  "snd (generateFinalReport (withRules added (fst (generateFinalReport s))))
     = snd (generateFinalReport (withRules added s))"
  by (simp add: generateFinalReport_def withRules_def pushRules_def Let_def sort_key_resort someIssue_def)

text \<open>
  C6. The rule list of the report is the catalog sorted by ascending priority with a stable
  sort. The sorted list \<open>L\<close> (which the report generator also leaves as the stored catalog)
  is ordered by priority, is a permutation of the catalog and, for every priority \<open>p\<close>, has
  the rules of priority \<open>p\<close> in the order in which the catalog has them. The three lists of
  the report are \<open>L\<close> filtered by kind, so each is ordered by priority and keeps rules of
  equal priority in catalog order, and together they hold every rule once. \<open>totalRules\<close> is
  the length of the catalog. Catalog order is insertion order also after earlier reports:
  a report generated after an earlier report and further insertions is the report the
  insertions alone would have given.
\<close>

theorem report_sorted_stable:
  "sorted (map priority (rewriteRules (debugContext (fst (generateFinalReport s)))))
   \<and> mset (rewriteRules (debugContext (fst (generateFinalReport s))))
       = mset (rewriteRules (debugContext s))
   \<and> filter (\<lambda>r. priority r = p) (rewriteRules (debugContext (fst (generateFinalReport s))))
       = filter (\<lambda>r. priority r = p) (rewriteRules (debugContext s))
   \<and> defaultRules (snd (generateFinalReport s))
       = filter (\<lambda>r. rtype r = default_type) (rewriteRules (debugContext (fst (generateFinalReport s))))
   \<and> headerRewrites (snd (generateFinalReport s))
       = filter (\<lambda>r. rtype r = header) (rewriteRules (debugContext (fst (generateFinalReport s))))
   \<and> bodyRewrites (snd (generateFinalReport s))
       = filter (\<lambda>r. rtype r = body) (rewriteRules (debugContext (fst (generateFinalReport s))))
   \<and> sorted (map priority (defaultRules (snd (generateFinalReport s))))
   \<and> sorted (map priority (headerRewrites (snd (generateFinalReport s))))
   \<and> sorted (map priority (bodyRewrites (snd (generateFinalReport s))))
   \<and> filter (\<lambda>r. priority r = p) (defaultRules (snd (generateFinalReport s)))
       = filter (\<lambda>r. priority r = p) (filter (\<lambda>r. rtype r = default_type) (rewriteRules (debugContext s)))
   \<and> filter (\<lambda>r. priority r = p) (headerRewrites (snd (generateFinalReport s)))
       = filter (\<lambda>r. priority r = p) (filter (\<lambda>r. rtype r = header) (rewriteRules (debugContext s)))
   \<and> filter (\<lambda>r. priority r = p) (bodyRewrites (snd (generateFinalReport s)))
       = filter (\<lambda>r. priority r = p) (filter (\<lambda>r. rtype r = body) (rewriteRules (debugContext s)))
   \<and> mset (defaultRules (snd (generateFinalReport s)))
         + mset (headerRewrites (snd (generateFinalReport s)))
         + mset (bodyRewrites (snd (generateFinalReport s)))
       = mset (rewriteRules (debugContext s))
   \<and> totalRules (snd (generateFinalReport s)) = length (rewriteRules (debugContext s))
   \<and> repSummaryTotalRules (snd (generateFinalReport s)) = length (rewriteRules (debugContext s))
   \<and> snd (generateFinalReport (withRules added (fst (generateFinalReport s))))
       = snd (generateFinalReport (withRules added s))"
proof -
  have "mset (filter (\<lambda>r. rtype r = default_type) (sort_key priority (rewriteRules (debugContext s))))
        + mset (filter (\<lambda>r. rtype r = header) (sort_key priority (rewriteRules (debugContext s))))
        + mset (filter (\<lambda>r. rtype r = body) (sort_key priority (rewriteRules (debugContext s))))
      = mset (rewriteRules (debugContext s))"
    using partition_by_type [of "sort_key priority (rewriteRules (debugContext s))"] by simp
  then show ?thesis
    by (simp only: report_catalog report_partitions report_after_report stable_partition
          sort_key_stable sorted_sort_key sorted_filter_key mset_sort simp_thms)
qed

theorem report_sorted_stable_witness:
  "map priority exampleCatalog = [22, 22, 1, 2, 3, 4]
   \<and> bodyRewrites (snd (generateFinalReport (withRules exampleCatalog initialServer)))
       = [staticRule ''/static/b.js'', staticRule ''/static/a.js'']
   \<and> map priority (headerRewrites (snd (generateFinalReport (withRules exampleCatalog initialServer))))
       = [2, 3, 4]
   \<and> totalRules (snd (generateFinalReport (withRules exampleCatalog initialServer))) = 6"
proof -
  let ?rep = "snd (generateFinalReport (withRules exampleCatalog initialServer))"
  have c: "rewriteRules (debugContext (withRules exampleCatalog initialServer)) = exampleCatalog"
    by (simp add: withRules_def pushRules_def initialServer_def initialContext_def)
  have p: "map priority exampleCatalog = [22, 22, 1, 2, 3, 4]"
    by code_simp
  have b: "filter (\<lambda>r. rtype r = body) exampleCatalog
      = [staticRule ''/static/b.js'', staticRule ''/static/a.js'']"
    by code_simp
  have a: "\<forall>r \<in> set (filter (\<lambda>r. rtype r = body) exampleCatalog). priority r = 22"
    by code_simp
  have h: "map priority (headerRewrites ?rep) = [2, 3, 4]"
    by code_simp
  note t = report_sorted_stable [of "withRules exampleCatalog initialServer" 22 "[]"]
  note t12 = t [THEN conjunct2, THEN conjunct2, THEN conjunct2, THEN conjunct2, THEN conjunct2, THEN conjunct2, THEN conjunct2, THEN conjunct2, THEN conjunct2, THEN conjunct2, THEN conjunct2, THEN conjunct1]
  note t14 = t [THEN conjunct2, THEN conjunct2, THEN conjunct2, THEN conjunct2, THEN conjunct2, THEN conjunct2, THEN conjunct2, THEN conjunct2, THEN conjunct2, THEN conjunct2, THEN conjunct2, THEN conjunct2, THEN conjunct2, THEN conjunct1]
  have "\<forall>r \<in> set (bodyRewrites ?rep). priority r = 22"
    using a c by (simp add: report_partitions)
  then have "filter (\<lambda>r. priority r = 22) (bodyRewrites ?rep) = bodyRewrites ?rep"
    by (simp only: filter_True)
  moreover have "filter (\<lambda>r. priority r = 22) (filter (\<lambda>r. rtype r = body) exampleCatalog)
      = filter (\<lambda>r. rtype r = body) exampleCatalog"
    using a by (simp only: filter_True)
  ultimately have "bodyRewrites ?rep = [staticRule ''/static/b.js'', staticRule ''/static/a.js'']"
    using t12 c b by (simp only:)
  moreover have "length exampleCatalog = 6"
    by code_simp
  then have "totalRules ?rep = 6"
    using t14 c by (simp only:)
  ultimately show ?thesis
    using p h by simp
qed

lemma report_deterministic:
  "snd (generateFinalReport (fst (generateFinalReport s))) = snd (generateFinalReport s)"
  by (simp add: generateFinalReport_def Let_def someIssue_def sort_key_id_if_sorted)

lemma report_state:
  "fst (generateFinalReport s)
     = s\<lparr>debugContext := (debugContext s)\<lparr>rewriteRules :=
           sort_key priority (rewriteRules (debugContext s))\<rparr>\<rparr>"
  by (simp add: generateFinalReport_def Let_def)

lemma report_state_sorted:
  "sorted (map priority (rewriteRules (debugContext s))) \<Longrightarrow> fst (generateFinalReport s) = s"
  by (simp add: report_state sort_key_id_if_sorted)

text \<open>
  C7. The report generator is not read-only. After a header probe that yields the rule
  of priority 81 and a ``start'' step that appends the four baseline rules, the catalog
  holds the priorities 81, 1, 2, 3, 4 in that order; generating the report, directly or
  through a final step, leaves the catalog stored in the order 1, 2, 3, 4, 81.
\<close>

theorem generateFinalReport_reorders_catalog:
  "map priority (rewriteRules (debugContext exampleUnsorted)) = [81, 1, 2, 3, 4]
   \<and> map priority (rewriteRules (debugContext (fst (generateFinalReport exampleUnsorted))))
       = [1, 2, 3, 4, 81]
   \<and> debugContext (fst (generateFinalReport exampleUnsorted)) \<noteq> debugContext exampleUnsorted
   \<and> map priority (rewriteRules (debugContext (fst (processLegacyDeviceDebug exampleRuntime
         exampleEnv (exampleStep ''that is all'' 3 3 False) exampleUnsorted))))
       = [1, 2, 3, 4, 81]"
proof -
  have a: "map priority (rewriteRules (debugContext exampleUnsorted)) = [81, 1, 2, 3, 4]"
    by code_simp
  have b: "map priority (rewriteRules (debugContext (fst (generateFinalReport exampleUnsorted))))
       = [1, 2, 3, 4, 81]"
    by code_simp
  have c: "map priority (rewriteRules (debugContext (fst (processLegacyDeviceDebug exampleRuntime
         exampleEnv (exampleStep ''that is all'' 3 3 False) exampleUnsorted))))
       = [1, 2, 3, 4, 81]"
    by code_simp
  from a b have "debugContext (fst (generateFinalReport exampleUnsorted)) \<noteq> debugContext exampleUnsorted"
    by auto
  with a b c show ?thesis by simp
qed

section \<open>The network and console phase\<close>

lemma push_observations [simp]:
  "consoleErrors (pushIssues xs c) = consoleErrors c"
  "networkRequests (pushIssues xs c) = networkRequests c"
  "consoleErrors (pushRules rs c) = consoleErrors c"
  "networkRequests (pushRules rs c) = networkRequests c"
  "rewriteRules (pushIssues xs c) = rewriteRules c"
  "rewriteRules (pushRules rs c) = rewriteRules c @ rs"
  "issues (pushIssues xs c) = issues c @ xs"
  "issues (pushRules rs c) = issues c"
  by (simp_all add: pushIssues_def pushRules_def)

lemma analyzeNetworkErrors_effect:
  "consoleErrors (analyzeNetworkErrors rt c) = consoleErrors c"
  "networkRequests (analyzeNetworkErrors rt c) = networkRequests c"
  "rewriteRules (analyzeNetworkErrors rt c)
     = rewriteRules c @ concat (map (networkErrorRules rt) (filter isNetworkError (networkRequests c)))"
  "issues (analyzeNetworkErrors rt c)
     = issues c
       @ (if filter isNetworkError (networkRequests c) \<noteq> []
          then (''NETWORK ERRORS: Found ''
                  @ showNat (length (filter isNetworkError (networkRequests c)))
                  @ '' network errors (404/500)'')
               # concat (map networkErrorIssues (filter isNetworkError (networkRequests c)))
          else [])"
  by (simp_all add: analyzeNetworkErrors_def Let_def)

lemma analyzeMimeTypes_effect:
  "consoleErrors (analyzeMimeTypes c) = consoleErrors c"
  "networkRequests (analyzeMimeTypes c) = networkRequests c"
  "rewriteRules (analyzeMimeTypes c)
     = rewriteRules c @ (if filter isMimeType (consoleErrors c) \<noteq> [] then mimeRules else [])"
  "issues (analyzeMimeTypes c)
     = issues c
       @ (if filter isMimeType (consoleErrors c) \<noteq> []
          then [''MIME TYPE ISSUE: '' @ showNat (length (filter isMimeType (consoleErrors c)))
                  @ '' MIME type mismatch errors detected in console'']
          else [])"
  by (simp_all add: analyzeMimeTypes_def Let_def)

lemma analyzeBootstrap_effect:
  "consoleErrors (analyzeBootstrap c) = consoleErrors c"
  "networkRequests (analyzeBootstrap c) = networkRequests c"
  "rewriteRules (analyzeBootstrap c)
     = rewriteRules c @ (if filter isBootstrapJS (consoleErrors c) \<noteq> [] then [bootstrapRule] else [])"
  "issues (analyzeBootstrap c)
     = issues c
       @ (if filter isBootstrapJS (consoleErrors c) \<noteq> []
          then [''BOOTSTRAP.JS ISSUE: Bootstrap.js HTTPS protocol issue detected (Reference: DSD-3756)'',
                ''ROOT CAUSE: Device configured as HTTP but accessed via HTTPS through RA portal'',
                ''NOTE: If bootstrap.js file is updated, this rule may need adjustment'',
                ''ALTERNATIVE: If HTTPS is properly configured on device, onboard as HTTPS and remove this rule'']
          else [])"
  by (simp_all add: analyzeBootstrap_def Let_def)

lemma analyzePrivateAPI_effect:
  "consoleErrors (analyzePrivateAPI c) = consoleErrors c"
  "networkRequests (analyzePrivateAPI c) = networkRequests c"
  "rewriteRules (analyzePrivateAPI c)
     = rewriteRules c @ map privateAPIRule (filter isPrivateAPI (networkRequests c))"
  "issues (analyzePrivateAPI c)
     = issues c
       @ (if filter isPrivateAPI (networkRequests c) \<noteq> []
          then [''PRIVATE API ISSUE: Found ''
                  @ showNat (length (filter isPrivateAPI (networkRequests c)))
                  @ '' private API calls - may need JSON body rewrite'',
                ''IMPORTANT: Enable JSON body rewrite for private API endpoints'']
          else [])"
  by (simp_all add: analyzePrivateAPI_def Let_def)

lemma analyzeConsolePatterns_effect:
  "consoleErrors (analyzeConsolePatterns c) = consoleErrors c"
  "networkRequests (analyzeConsolePatterns c) = networkRequests c"
  "rewriteRules (analyzeConsolePatterns c) = rewriteRules c"
  "issues (analyzeConsolePatterns c) = issues c @ concat (map consolePatternIssues (consoleErrors c))"
  by (simp_all add: analyzeConsolePatterns_def)

lemma step6_rules:
  "rewriteRules (step6_AnalyzeNetworkAndConsole rt c)
     = rewriteRules c
       @ concat (map (networkErrorRules rt) (filter isNetworkError (networkRequests c)))
       @ (if filter isMimeType (consoleErrors c) \<noteq> [] then mimeRules else [])
       @ (if filter isBootstrapJS (consoleErrors c) \<noteq> [] then [bootstrapRule] else [])
       @ map privateAPIRule (filter isPrivateAPI (networkRequests c))"
proof -
  let ?c0 = "c\<lparr>currentStep := ''Step 6: Analyze Network Failures and Console Errors''\<rparr>"
  have c0: "rewriteRules ?c0 = rewriteRules c" "consoleErrors ?c0 = consoleErrors c"
      "networkRequests ?c0 = networkRequests c"
    by simp_all
  show ?thesis
    unfolding step6_AnalyzeNetworkAndConsole_def
    by (simp only: analyzeConsolePatterns_effect analyzePrivateAPI_effect analyzeBootstrap_effect
          analyzeMimeTypes_effect analyzeNetworkErrors_effect c0 append_assoc)
qed

lemma step6_issues:
  "issues (step6_AnalyzeNetworkAndConsole rt c)
     = issues c
       @ (if filter isNetworkError (networkRequests c) \<noteq> []
          then (''NETWORK ERRORS: Found ''
                  @ showNat (length (filter isNetworkError (networkRequests c)))
                  @ '' network errors (404/500)'')
               # concat (map networkErrorIssues (filter isNetworkError (networkRequests c)))
          else [])
       @ (if filter isMimeType (consoleErrors c) \<noteq> []
          then [''MIME TYPE ISSUE: '' @ showNat (length (filter isMimeType (consoleErrors c)))
                  @ '' MIME type mismatch errors detected in console'']
          else [])
       @ (if filter isBootstrapJS (consoleErrors c) \<noteq> []
          then [''BOOTSTRAP.JS ISSUE: Bootstrap.js HTTPS protocol issue detected (Reference: DSD-3756)'',
                ''ROOT CAUSE: Device configured as HTTP but accessed via HTTPS through RA portal'',
                ''NOTE: If bootstrap.js file is updated, this rule may need adjustment'',
                ''ALTERNATIVE: If HTTPS is properly configured on device, onboard as HTTPS and remove this rule'']
          else [])
       @ (if filter isPrivateAPI (networkRequests c) \<noteq> []
          then [''PRIVATE API ISSUE: Found ''
                  @ showNat (length (filter isPrivateAPI (networkRequests c)))
                  @ '' private API calls - may need JSON body rewrite'',
                ''IMPORTANT: Enable JSON body rewrite for private API endpoints'']
          else [])
       @ concat (map consolePatternIssues (consoleErrors c))"
proof -
  let ?c0 = "c\<lparr>currentStep := ''Step 6: Analyze Network Failures and Console Errors''\<rparr>"
  have c0: "issues ?c0 = issues c" "consoleErrors ?c0 = consoleErrors c"
      "networkRequests ?c0 = networkRequests c"
    by simp_all
  show ?thesis
    unfolding step6_AnalyzeNetworkAndConsole_def
    by (simp only: analyzeConsolePatterns_effect analyzePrivateAPI_effect analyzeBootstrap_effect
          analyzeMimeTypes_effect analyzeNetworkErrors_effect c0 append_assoc)
qed

lemma resourceRule_priority [simp]: "priority (resourceRule rt a b p src) = p"
  by (simp add: resourceRule_def rule_def split: option.splits)

lemma networkErrorRules_priority: "r \<in> set (networkErrorRules rt e) \<Longrightarrow> priority r = 50"
  by (auto simp: networkErrorRules_def split: if_splits)

lemma not70_networkErrorRules:
  "filter (\<lambda>r. priority r = 70) (concat (map (networkErrorRules rt) es)) = []"
  by (induction es) (auto simp: filter_empty_conv dest: networkErrorRules_priority)

lemma not70_privateAPIRules:
  "filter (\<lambda>r. priority r = 70) (map privateAPIRule es) = []"
  by (induction es) (auto simp: privateAPIRule_def rule_def)

lemma not70_mimeRules: "filter (\<lambda>r. priority r = 70) mimeRules = []"
  by (simp add: mimeRules_def rule_def)

lemma bootstrapRule_fields:
  "bootstrapRule =
     \<lparr> rtype = body, action = find_replace, pattern = Some ''https'', replacement = Some ''spdy'',
       headerName = None, headerValue = None, path = Some ''bootstrap.js'', condition = None,
       description = ''Fix bootstrap.js HTTPS protocol issue (DSD-3756) - Critical OT fix'',
       priority = 70 \<rparr>"
  by (simp add: bootstrapRule_def rule_def)

lemma advisory_networkErrorIssues:
  "filter isAdvisory (concat (map networkErrorIssues es)) = []"
  by (induction es) (simp_all add: networkErrorIssues_def isAdvisory_def)

lemma advisory_consolePatternIssues:
  "filter isAdvisory (concat (map consolePatternIssues es)) = []"
  by (induction es) (simp_all add: consolePatternIssues_def isAdvisory_def)

lemma step6_new_issues:
  assumes "filter isBootstrapJS (consoleErrors c) \<noteq> []"
  shows "drop (length (issues c)) (issues (step6_AnalyzeNetworkAndConsole rt c))
     = ((if filter isNetworkError (networkRequests c) \<noteq> []
          then (''NETWORK ERRORS: Found ''
                  @ showNat (length (filter isNetworkError (networkRequests c)))
                  @ '' network errors (404/500)'')
               # concat (map networkErrorIssues (filter isNetworkError (networkRequests c)))
          else [])
        @ (if filter isMimeType (consoleErrors c) \<noteq> []
          then [''MIME TYPE ISSUE: '' @ showNat (length (filter isMimeType (consoleErrors c)))
                  @ '' MIME type mismatch errors detected in console'']
          else []))
       @ [''BOOTSTRAP.JS ISSUE: Bootstrap.js HTTPS protocol issue detected (Reference: DSD-3756)'',
          ''ROOT CAUSE: Device configured as HTTP but accessed via HTTPS through RA portal'',
          ''NOTE: If bootstrap.js file is updated, this rule may need adjustment'',
          ''ALTERNATIVE: If HTTPS is properly configured on device, onboard as HTTPS and remove this rule'']
       @ ((if filter isPrivateAPI (networkRequests c) \<noteq> []
          then [''PRIVATE API ISSUE: Found ''
                  @ showNat (length (filter isPrivateAPI (networkRequests c)))
                  @ '' private API calls - may need JSON body rewrite'',
                ''IMPORTANT: Enable JSON body rewrite for private API endpoints'']
          else [])
          @ concat (map consolePatternIssues (consoleErrors c)))"
  using assms by (simp add: step6_issues)

lemma advisory_parts:
  "filter isAdvisory (if filter isNetworkError (networkRequests c) \<noteq> []
          then (''NETWORK ERRORS: Found ''
                  @ showNat (length (filter isNetworkError (networkRequests c)))
                  @ '' network errors (404/500)'')
               # concat (map networkErrorIssues (filter isNetworkError (networkRequests c)))
          else []) = []"
  "filter isAdvisory (if filter isMimeType (consoleErrors c) \<noteq> []
          then [''MIME TYPE ISSUE: '' @ showNat (length (filter isMimeType (consoleErrors c)))
                  @ '' MIME type mismatch errors detected in console'']
          else []) = []"
  "filter isAdvisory (if filter isPrivateAPI (networkRequests c) \<noteq> []
          then [''PRIVATE API ISSUE: Found ''
                  @ showNat (length (filter isPrivateAPI (networkRequests c)))
                  @ '' private API calls - may need JSON body rewrite'',
                ''IMPORTANT: Enable JSON body rewrite for private API endpoints'']
          else []) = []"
  "filter isAdvisory [''BOOTSTRAP.JS ISSUE: Bootstrap.js HTTPS protocol issue detected (Reference: DSD-3756)'',
          ''ROOT CAUSE: Device configured as HTTP but accessed via HTTPS through RA portal'',
          ''NOTE: If bootstrap.js file is updated, this rule may need adjustment'',
          ''ALTERNATIVE: If HTTPS is properly configured on device, onboard as HTTPS and remove this rule'']
     = [''NOTE: If bootstrap.js file is updated, this rule may need adjustment'',
        ''ALTERNATIVE: If HTTPS is properly configured on device, onboard as HTTPS and remove this rule'']"
  by (simp_all add: advisory_networkErrorIssues isAdvisory_def)

lemma advisory_step6:
  assumes "filter isBootstrapJS (consoleErrors c) \<noteq> []"
  shows "filter isAdvisory (drop (length (issues c)) (issues (step6_AnalyzeNetworkAndConsole rt c)))
       = [''NOTE: If bootstrap.js file is updated, this rule may need adjustment'',
          ''ALTERNATIVE: If HTTPS is properly configured on device, onboard as HTTPS and remove this rule'']"
  unfolding step6_new_issues [OF assms]
  by (simp only: filter_append advisory_parts advisory_consolePatternIssues append_Nil append_Nil2)

lemma priority70_step6:
  "filter (\<lambda>r. priority r = 70)
       (drop (length (rewriteRules c)) (rewriteRules (step6_AnalyzeNetworkAndConsole rt c)))
     = (if filter isBootstrapJS (consoleErrors c) \<noteq> [] then [bootstrapRule] else [])"
  by (simp add: step6_rules not70_networkErrorRules not70_privateAPIRules not70_mimeRules
        bootstrapRule_fields)

lemma described_by_priority:
  "filter (\<lambda>r. rtype r = body \<and> pattern r = Some ''https'' \<and> replacement r = Some ''spdy''
              \<and> path r = Some ''bootstrap.js'' \<and> priority r = 70) xs
     = filter (\<lambda>r. rtype r = body \<and> pattern r = Some ''https'' \<and> replacement r = Some ''spdy''
              \<and> path r = Some ''bootstrap.js'' \<and> priority r = 70) (filter (\<lambda>r. priority r = 70) xs)"
  by (induction xs) auto

text \<open>
  C8. When the network/console phase runs on a context whose console errors include an
  observation flagged \<open>isBootstrapJS\<close>, it appends to the catalog (which it only extends)
  exactly one rule that is a body rule with pattern \<^verbatim>\<open>https\<close>, replacement \<^verbatim>\<open>spdy\<close>, path
  \<^verbatim>\<open>bootstrap.js\<close> and priority 70, and this is the only rule of priority 70 it appends. To
  the issue log (which it only extends) it appends, for the signature, the finding and its
  root cause followed by the two advisories (the \<^verbatim>\<open>NOTE\<close> and the \<^verbatim>\<open>ALTERNATIVE\<close>), each
  advisory exactly once.
\<close>

theorem step6_bootstrap:
  "list_ex isBootstrapJS (consoleErrors c) \<longrightarrow>
     take (length (rewriteRules c)) (rewriteRules (step6_AnalyzeNetworkAndConsole rt c))
       = rewriteRules c
     \<and> filter (\<lambda>r. rtype r = body \<and> pattern r = Some ''https'' \<and> replacement r = Some ''spdy''
              \<and> path r = Some ''bootstrap.js'' \<and> priority r = 70)
          (drop (length (rewriteRules c)) (rewriteRules (step6_AnalyzeNetworkAndConsole rt c)))
        = [bootstrapRule]
     \<and> filter (\<lambda>r. priority r = 70)
          (drop (length (rewriteRules c)) (rewriteRules (step6_AnalyzeNetworkAndConsole rt c)))
        = [bootstrapRule]
     \<and> bootstrapRule =
         \<lparr> rtype = body, action = find_replace, pattern = Some ''https'',
           replacement = Some ''spdy'', headerName = None, headerValue = None,
           path = Some ''bootstrap.js'', condition = None,
           description = ''Fix bootstrap.js HTTPS protocol issue (DSD-3756) - Critical OT fix'',
           priority = 70 \<rparr>
     \<and> take (length (issues c)) (issues (step6_AnalyzeNetworkAndConsole rt c)) = issues c
     \<and> filter (\<lambda>i. i = ''NOTE: If bootstrap.js file is updated, this rule may need adjustment''
              \<or> i = ''ALTERNATIVE: If HTTPS is properly configured on device, onboard as HTTPS and remove this rule'')
          (drop (length (issues c)) (issues (step6_AnalyzeNetworkAndConsole rt c)))
        = [''NOTE: If bootstrap.js file is updated, this rule may need adjustment'',
           ''ALTERNATIVE: If HTTPS is properly configured on device, onboard as HTTPS and remove this rule'']
     \<and> (\<exists>before after.
          drop (length (issues c)) (issues (step6_AnalyzeNetworkAndConsole rt c))
            = before
              @ [''BOOTSTRAP.JS ISSUE: Bootstrap.js HTTPS protocol issue detected (Reference: DSD-3756)'',
                 ''ROOT CAUSE: Device configured as HTTP but accessed via HTTPS through RA portal'',
                 ''NOTE: If bootstrap.js file is updated, this rule may need adjustment'',
                 ''ALTERNATIVE: If HTTPS is properly configured on device, onboard as HTTPS and remove this rule'']
              @ after)"
proof
  assume "list_ex isBootstrapJS (consoleErrors c)"
  then have b: "filter isBootstrapJS (consoleErrors c) \<noteq> []"
    by (simp add: filter_empty_conv list_ex_iff)
  have r1: "take (length (rewriteRules c)) (rewriteRules (step6_AnalyzeNetworkAndConsole rt c))
       = rewriteRules c"
    by (simp add: step6_rules)
  have r2: "filter (\<lambda>r. priority r = 70)
          (drop (length (rewriteRules c)) (rewriteRules (step6_AnalyzeNetworkAndConsole rt c)))
        = [bootstrapRule]"
    using b by (simp add: priority70_step6)
  have r3: "filter (\<lambda>r. rtype r = body \<and> pattern r = Some ''https'' \<and> replacement r = Some ''spdy''
              \<and> path r = Some ''bootstrap.js'' \<and> priority r = 70)
          (drop (length (rewriteRules c)) (rewriteRules (step6_AnalyzeNetworkAndConsole rt c)))
        = [bootstrapRule]"
    by (subst described_by_priority) (simp add: r2 bootstrapRule_fields)
  have i1: "take (length (issues c)) (issues (step6_AnalyzeNetworkAndConsole rt c)) = issues c"
    by (simp add: step6_issues)
  have i2: "filter (\<lambda>i. i = ''NOTE: If bootstrap.js file is updated, this rule may need adjustment''
              \<or> i = ''ALTERNATIVE: If HTTPS is properly configured on device, onboard as HTTPS and remove this rule'')
          (drop (length (issues c)) (issues (step6_AnalyzeNetworkAndConsole rt c)))
        = [''NOTE: If bootstrap.js file is updated, this rule may need adjustment'',
           ''ALTERNATIVE: If HTTPS is properly configured on device, onboard as HTTPS and remove this rule'']"
    using advisory_step6 [OF b, of rt] by (simp add: isAdvisory_def [abs_def])
  have i3: "\<exists>before after.
          drop (length (issues c)) (issues (step6_AnalyzeNetworkAndConsole rt c))
            = before
              @ [''BOOTSTRAP.JS ISSUE: Bootstrap.js HTTPS protocol issue detected (Reference: DSD-3756)'',
                 ''ROOT CAUSE: Device configured as HTTP but accessed via HTTPS through RA portal'',
                 ''NOTE: If bootstrap.js file is updated, this rule may need adjustment'',
                 ''ALTERNATIVE: If HTTPS is properly configured on device, onboard as HTTPS and remove this rule'']
              @ after"
    using step6_new_issues [OF b, of rt] by blast
  from r1 r2 r3 i1 i2 i3 bootstrapRule_fields
  show "     take (length (rewriteRules c)) (rewriteRules (step6_AnalyzeNetworkAndConsole rt c))
       = rewriteRules c
     \<and> filter (\<lambda>r. rtype r = body \<and> pattern r = Some ''https'' \<and> replacement r = Some ''spdy''
              \<and> path r = Some ''bootstrap.js'' \<and> priority r = 70)
          (drop (length (rewriteRules c)) (rewriteRules (step6_AnalyzeNetworkAndConsole rt c)))
        = [bootstrapRule]
     \<and> filter (\<lambda>r. priority r = 70)
          (drop (length (rewriteRules c)) (rewriteRules (step6_AnalyzeNetworkAndConsole rt c)))
        = [bootstrapRule]
     \<and> bootstrapRule =
         \<lparr> rtype = body, action = find_replace, pattern = Some ''https'',
           replacement = Some ''spdy'', headerName = None, headerValue = None,
           path = Some ''bootstrap.js'', condition = None,
           description = ''Fix bootstrap.js HTTPS protocol issue (DSD-3756) - Critical OT fix'',
           priority = 70 \<rparr>
     \<and> take (length (issues c)) (issues (step6_AnalyzeNetworkAndConsole rt c)) = issues c
     \<and> filter (\<lambda>i. i = ''NOTE: If bootstrap.js file is updated, this rule may need adjustment''
              \<or> i = ''ALTERNATIVE: If HTTPS is properly configured on device, onboard as HTTPS and remove this rule'')
          (drop (length (issues c)) (issues (step6_AnalyzeNetworkAndConsole rt c)))
        = [''NOTE: If bootstrap.js file is updated, this rule may need adjustment'',
           ''ALTERNATIVE: If HTTPS is properly configured on device, onboard as HTTPS and remove this rule'']
     \<and> (\<exists>before after.
          drop (length (issues c)) (issues (step6_AnalyzeNetworkAndConsole rt c))
            = before
              @ [''BOOTSTRAP.JS ISSUE: Bootstrap.js HTTPS protocol issue detected (Reference: DSD-3756)'',
                 ''ROOT CAUSE: Device configured as HTTP but accessed via HTTPS through RA portal'',
                 ''NOTE: If bootstrap.js file is updated, this rule may need adjustment'',
                 ''ALTERNATIVE: If HTTPS is properly configured on device, onboard as HTTPS and remove this rule'']
              @ after)"
    by (intro conjI)
qed

theorem step6_bootstrap_witness:
  "list_ex isBootstrapJS (consoleErrors exampleConsole)
   \<and> rewriteRules exampleConsole = [] \<and> issues exampleConsole = []
   \<and> rewriteRules (step6_AnalyzeNetworkAndConsole exampleRuntime exampleConsole) = [bootstrapRule]
   \<and> issues (step6_AnalyzeNetworkAndConsole exampleRuntime exampleConsole)
       = [''BOOTSTRAP.JS ISSUE: Bootstrap.js HTTPS protocol issue detected (Reference: DSD-3756)'',
          ''ROOT CAUSE: Device configured as HTTP but accessed via HTTPS through RA portal'',
          ''NOTE: If bootstrap.js file is updated, this rule may need adjustment'',
          ''ALTERNATIVE: If HTTPS is properly configured on device, onboard as HTTPS and remove this rule'']"
proof -
  have a: "list_ex isBootstrapJS (consoleErrors exampleConsole)" by code_simp
  have b: "rewriteRules exampleConsole = []" "issues exampleConsole = []" by code_simp+
  have c: "length (rewriteRules (step6_AnalyzeNetworkAndConsole exampleRuntime exampleConsole)) = 1"
    by code_simp
  have d: "issues (step6_AnalyzeNetworkAndConsole exampleRuntime exampleConsole)
       = [''BOOTSTRAP.JS ISSUE: Bootstrap.js HTTPS protocol issue detected (Reference: DSD-3756)'',
          ''ROOT CAUSE: Device configured as HTTP but accessed via HTTPS through RA portal'',
          ''NOTE: If bootstrap.js file is updated, this rule may need adjustment'',
          ''ALTERNATIVE: If HTTPS is properly configured on device, onboard as HTTPS and remove this rule'']"
    by code_simp
  note t = step6_bootstrap [of exampleConsole exampleRuntime, rule_format, OF a]
  from c obtain r where r: "rewriteRules (step6_AnalyzeNetworkAndConsole exampleRuntime exampleConsole) = [r]"
    by (auto simp: length_Suc_conv)
  have "filter (\<lambda>r. priority r = 70)
          (drop (length (rewriteRules exampleConsole))
             (rewriteRules (step6_AnalyzeNetworkAndConsole exampleRuntime exampleConsole)))
        = [bootstrapRule]"
    using t by (elim conjE)
  then have "r = bootstrapRule"
    using r b by (simp split: if_splits)
  with a b d r show ?thesis by simp
qed

end
